theory Spec2Isabelle
  imports Complex_Main "HOL-Library.AList"
begin

section \<open>Data model (types.ts)\<close>

text \<open>
  The records follow the TypeScript interfaces field by field. An optional field
  \<open>f?: T\<close> is a \<open>T option\<close>, with \<open>None\<close> for \<open>undefined\<close>. Field names that occur in
  more than one interface (\<open>id\<close>, \<open>label\<close>, \<open>dates\<close>, \<open>certainty\<close>, \<open>data\<close>) or that clash
  with a constant of HOL carry the name of their interface as a prefix.

  Outside \<open>cosineSimilarity\<close> a JavaScript number is modelled as a real number:
  rounding, overflow and infinities of IEEE doubles are outside the model there. The
  one non-number that the engine's own arithmetic produces, \<open>NaN\<close> (from
  \<open>undefined / n\<close> in \<open>calculatePageRank\<close> and from \<open>++\<close> on a function in
  \<open>calculateDegreeCentrality\<close>), is modelled by the type \<open>number\<close>. A
  \<open>Record<string, T>\<close> is an association list in insertion order, read with \<open>map_of\<close>
  and written with \<open>AList.update\<close>. The members that an object literal inherits from
  \<open>Object.prototype\<close> are modelled where the code reads a record at the endpoint of an
  edge and tests the value against \<open>undefined\<close> (\<open>increment\<close>). In the other records
  only own properties are modelled: the ids of the nodes and, in the record \<open>adj\<close> of
  \<open>calculateTriadicBalance\<close>, the endpoints of the edges are assumed not to be names
  of such members.
\<close>

datatype NodeType =
    ty_person | ty_organization | ty_event | ty_concept | ty_publication
  | ty_Person | ty_Organization | ty_Event | ty_Concept | ty_Publication

datatype Sign = positive | negative

datatype Certainty = confirmed | disputed | alleged

datatype number = Num real | NaN

record NodeData =
  node_id :: string
  node_label :: string
  node_type :: NodeType
  year :: "int option"
  description :: "string option"
  node_dates :: "string option"
  importance :: "real option"
  region :: "string option"
  degreeCentrality :: "number option"
  pagerank :: "number option"
  community :: "nat option"
  kCore :: "int option"
  betweenness :: "real option"
  closeness :: "real option"
  eigenvector :: "real option"
  clustering :: "real option"
  embedding :: "real list option"
  sources :: "string list option"
  node_certainty :: "Certainty option"

record EdgeData =
  edge_id :: string
  source :: string
  target :: string
  edge_label :: "string option"
  edge_dates :: "string option"
  weight :: "real option"
  sign :: "Sign option"
  isBalanced :: "bool option"
  certainty :: "Certainty option"

record GraphNode =
  node_data :: NodeData
  position :: "(real \<times> real) option"
  selected :: "bool option"

record GraphEdge =
  edge_data :: EdgeData

record Meta =
  modularity :: "real option"
  globalBalance :: "real option"
  lastSaved :: "real option"

record KnowledgeGraph =
  nodes :: "GraphNode list"
  edges :: "GraphEdge list"
  meta :: "Meta option"

record DuplicateCandidate =
  nodeA :: NodeData
  nodeB :: NodeData
  similarity :: real

section \<open>Similarity kernel (services/embeddingService.ts)\<close>

text \<open>
  \<open>cosineSimilarity\<close>: the guard on the lengths, the loop over the indices of \<open>vecA\<close>
  with its three accumulators, the guard on the norms, and the quotient. The
  arithmetic of the numbers is a parameter of the function: the literal \<open>0\<close>, the
  operators \<open>+\<close>, \<open>*\<close> and \<open>/\<close>, \<open>Math.sqrt\<close> and the test \<open>=== 0\<close>. The program runs
  on IEEE doubles, whose operations round; \<open>exact\<close> is the arithmetic of the real
  numbers, without rounding.
\<close>

record 'a arithmetic =
  ar_zero :: 'a
  ar_add :: "'a \<Rightarrow> 'a \<Rightarrow> 'a"
  ar_mul :: "'a \<Rightarrow> 'a \<Rightarrow> 'a"
  ar_div :: "'a \<Rightarrow> 'a \<Rightarrow> 'a"
  ar_sqrt :: "'a \<Rightarrow> 'a"
  ar_is_zero :: "'a \<Rightarrow> bool"

definition exact :: "real arithmetic" where
  "exact = \<lparr>ar_zero = 0, ar_add = (+), ar_mul = (*), ar_div = (/), ar_sqrt = sqrt,
            ar_is_zero = (\<lambda>x. x = 0)\<rparr>"

definition cosine_step :: "'a arithmetic \<Rightarrow> 'a list \<Rightarrow> 'a list \<Rightarrow> nat \<Rightarrow> 'a \<times> 'a \<times> 'a \<Rightarrow> 'a \<times> 'a \<times> 'a" where
  "cosine_step ar vecA vecB i acc =
     (case acc of (dotProduct, normA, normB) \<Rightarrow>
        (ar_add ar dotProduct (ar_mul ar (vecA ! i) (vecB ! i)),
         ar_add ar normA (ar_mul ar (vecA ! i) (vecA ! i)),
         ar_add ar normB (ar_mul ar (vecB ! i) (vecB ! i))))"

definition cosineSimilarity :: "'a arithmetic \<Rightarrow> 'a list \<Rightarrow> 'a list \<Rightarrow> 'a" where
  "cosineSimilarity ar vecA vecB =
     (if length vecA \<noteq> length vecB \<or> length vecA = 0 then ar_zero ar
      else case fold (cosine_step ar vecA vecB) [0..<length vecA] (ar_zero ar, ar_zero ar, ar_zero ar) of
        (dotProduct, normA, normB) \<Rightarrow>
          if ar_is_zero ar normA \<or> ar_is_zero ar normB then ar_zero ar
          else ar_div ar dotProduct (ar_mul ar (ar_sqrt ar normA) (ar_sqrt ar normB)))"
section \<open>Centrality, communities and balance (legacy services/graphService.ts)\<close>

text \<open>
  The repository holds two versions of \<open>services/graphService.ts\<close>. The older one
  (\<open>src/unnamed/part_005\<close>) computes degree centrality and PageRank itself; the current
  one (\<open>src/services/graphService.ts\<close>) takes them from the Cytoscape library and adds
  the clustering coefficient. Where both files define a function of the same name
  with different bodies, the definition from the older file carries the suffix
  \<open>_legacy\<close>; \<open>detectCommunities\<close> and \<open>processEdgeMetrics\<close> are the same in both.
\<close>

abbreviation nid :: "GraphNode \<Rightarrow> string" where
  "nid n \<equiv> node_id (node_data n)"

abbreviation src :: "GraphEdge \<Rightarrow> string" where
  "src e \<equiv> source (edge_data e)"

abbreviation tgt :: "GraphEdge \<Rightarrow> string" where
  "tgt e \<equiv> target (edge_data e)"

subsection \<open>Arithmetic with NaN\<close>

text \<open>
  \<open>NaN\<close> absorbs every sum, product and quotient, and \<open>Math.max\<close> returns \<open>NaN\<close> as
  soon as one argument is \<open>NaN\<close>. The only divisor of \<open>num_div\<close> in the engine is the
  result of \<open>Math.max(..., 1)\<close>, which is at least 1 or \<open>NaN\<close>.
\<close>

fun num_add :: "number \<Rightarrow> number \<Rightarrow> number" where
  "num_add (Num x) (Num y) = Num (x + y)"
| "num_add _ _ = NaN"

fun num_mul :: "number \<Rightarrow> number \<Rightarrow> number" where
  "num_mul (Num x) (Num y) = Num (x * y)"
| "num_mul _ _ = NaN"

fun num_div :: "number \<Rightarrow> number \<Rightarrow> number" where
  "num_div (Num x) (Num y) = Num (x / y)"
| "num_div _ _ = NaN"

fun num_max :: "number \<Rightarrow> number \<Rightarrow> number" where
  "num_max (Num x) (Num y) = Num (max x y)"
| "num_max _ _ = NaN"

subsection \<open>calculateDegreeCentrality\<close>

text \<open>
  \<open>if (centrality[k] !== undefined) centrality[k]++\<close>. The record \<open>centrality\<close> is an
  object literal, so \<open>centrality[k]\<close> is also defined when \<open>k\<close> is the name of a member
  of \<open>Object.prototype\<close>. For the function-valued members (\<open>objectPrototypeMembers\<close>)
  the value read is a function, \<open>++\<close> converts it to \<open>NaN\<close> and stores \<open>NaN\<close> as an own
  property of the record. For \<open>__proto__\<close> the value read is the prototype object, and
  the write goes to the setter of \<open>__proto__\<close>, which ignores a number: the record is
  unchanged.
\<close>

definition objectPrototypeMembers :: "string list" where
  "objectPrototypeMembers =
     [''constructor'', ''__defineGetter__'', ''__defineSetter__'', ''hasOwnProperty'',
      ''__lookupGetter__'', ''__lookupSetter__'', ''isPrototypeOf'', ''propertyIsEnumerable'',
      ''toString'', ''valueOf'', ''toLocaleString'']"

definition increment :: "string \<Rightarrow> (string \<times> number) list \<Rightarrow> (string \<times> number) list" where
  "increment k centrality =
     (case map_of centrality k of
        Some v \<Rightarrow> AList.update k (num_add v (Num 1)) centrality
      | None \<Rightarrow>
          if k \<in> set objectPrototypeMembers then AList.update k NaN centrality
          else centrality)"

text \<open>
  \<open>Math.max(...Object.values(centrality), 1)\<close> and the division of every value by it.
\<close>

definition calculateDegreeCentrality :: "KnowledgeGraph \<Rightarrow> (string \<times> number) list" where
  "calculateDegreeCentrality graph =
     (let centrality0 = fold (\<lambda>node centrality. AList.update (nid node) (Num 0) centrality)
                          (nodes graph) [];
          centrality1 = fold (\<lambda>edge centrality. increment (tgt edge) (increment (src edge) centrality))
                          (edges graph) centrality0;
          max = fold num_max (map snd centrality1) (Num 1)
      in map (\<lambda>(key, v). (key, num_div v max)) centrality1)"

subsection \<open>detectCommunities\<close>

text \<open>
  The state of the breadth-first search is the queue, the set \<open>visited\<close> (in insertion
  order) and the record \<open>communities\<close>. The loop ends because every pass either marks
  an endpoint of an edge as visited or shortens the queue.
\<close>

type_synonym bfs_state = "string list \<times> string list \<times> (string \<times> nat) list"

definition neighbors_of :: "GraphEdge list \<Rightarrow> string \<Rightarrow> string list" where
  "neighbors_of es current =
     map (\<lambda>e. if src e = current then tgt e else src e)
       (filter (\<lambda>e. src e = current \<or> tgt e = current) es)"

definition visit_neighbor :: "nat \<Rightarrow> string \<Rightarrow> bfs_state \<Rightarrow> bfs_state" where
  "visit_neighbor communityId neighbor st =
     (case st of (queue, visited, communities) \<Rightarrow>
        if neighbor \<notin> set visited
        then (queue @ [neighbor], visited @ [neighbor], AList.update neighbor communityId communities)
        else st)"

definition endpoints :: "GraphEdge list \<Rightarrow> string set" where
  "endpoints es = set (map src es) \<union> set (map tgt es)"

function bfs_loop :: "GraphEdge list \<Rightarrow> nat \<Rightarrow> bfs_state \<Rightarrow> string list \<times> (string \<times> nat) list" where
  "bfs_loop es communityId ([], visited, communities) = (visited, communities)"
| "bfs_loop es communityId (current # rest, visited, communities) =
     bfs_loop es communityId
       (fold (visit_neighbor communityId) (neighbors_of es current) (rest, visited, communities))"
  by pat_completeness auto
termination
proof (relation "measure (\<lambda>(es, communityId, queue, visited, communities).
          2 * card (endpoints es - set visited) + length queue)")
  show "wf (measure (\<lambda>(es, communityId, queue, visited, communities).
          2 * card (endpoints es - set visited) + length queue))"
    by simp
next
  fix es :: "GraphEdge list" and communityId :: nat and current :: string
    and rest visited :: "string list" and communities :: "(string \<times> nat) list"
  have step: "(case fold (visit_neighbor communityId) ns st of (q', v', c') \<Rightarrow>
                 2 * card (endpoints es - set v') + length q')
              \<le> (case st of (q, v, c) \<Rightarrow> 2 * card (endpoints es - set v) + length q)"
    if "set ns \<subseteq> endpoints es" for ns st
    using that
  proof (induction ns arbitrary: st)
    case Nil
    show ?case by simp
  next
    case (Cons n ns)
    obtain q v c where st: "st = (q, v, c)" by (cases st) auto
    have fin: "finite (endpoints es)" by (simp add: endpoints_def)
    have one: "(case visit_neighbor communityId n st of (q', v', c') \<Rightarrow>
                 2 * card (endpoints es - set v') + length q')
               \<le> 2 * card (endpoints es - set v) + length q"
    proof (cases "n \<in> set v")
      case True
      then show ?thesis by (simp add: visit_neighbor_def st)
    next
      case False
      have nE: "n \<in> endpoints es" using Cons.prems by simp
      have eq: "endpoints es - set (v @ [n]) = (endpoints es - set v) - {n}" by auto
      have mem: "n \<in> endpoints es - set v" using nE False by simp
      have "finite (endpoints es - set v)" using fin by simp
      then have "card ((endpoints es - set v) - {n}) < card (endpoints es - set v)"
        using mem by (rule card_Diff1_less)
      then have "card (endpoints es - set (v @ [n])) < card (endpoints es - set v)"
        by (simp only: eq)
      then show ?thesis using False by (simp add: visit_neighbor_def st)
    qed
    have "(case fold (visit_neighbor communityId) ns (visit_neighbor communityId n st) of
             (q', v', c') \<Rightarrow> 2 * card (endpoints es - set v') + length q')
          \<le> (case visit_neighbor communityId n st of (q', v', c') \<Rightarrow>
                 2 * card (endpoints es - set v') + length q')"
      using Cons.prems by (intro Cons.IH) simp
    with one show ?case by (simp add: st)
  qed
  have sub: "set (neighbors_of es current) \<subseteq> endpoints es"
    by (auto simp: neighbors_of_def endpoints_def)
  show "((es, communityId,
          fold (visit_neighbor communityId) (neighbors_of es current) (rest, visited, communities)),
         (es, communityId, current # rest, visited, communities))
        \<in> measure (\<lambda>(es, communityId, queue, visited, communities).
            2 * card (endpoints es - set visited) + length queue)"
    using step [OF sub, of "(rest, visited, communities)"]
    by (auto split: prod.splits)
qed

definition bfs :: "GraphEdge list \<Rightarrow> string \<Rightarrow> nat \<Rightarrow> string list \<times> (string \<times> nat) list
    \<Rightarrow> string list \<times> (string \<times> nat) list" where
  "bfs es startNodeId communityId st =
     (case st of (visited, communities) \<Rightarrow>
        bfs_loop es communityId
          ([startNodeId], visited @ [startNodeId], AList.update startNodeId communityId communities))"

definition detectCommunities :: "KnowledgeGraph \<Rightarrow> (string \<times> nat) list" where
  "detectCommunities graph =
     (case fold (\<lambda>node (nextCommunityId, st).
                   if nid node \<notin> set (fst st)
                   then (nextCommunityId + 1, bfs (edges graph) (nid node) nextCommunityId st)
                   else (nextCommunityId, st))
             (nodes graph) (0, [], [])
      of (nextCommunityId, visited, communities) \<Rightarrow> communities)"

subsection \<open>calculatePageRank\<close>

text \<open>
  \<open>ranks[sourceId] / outDegree\<close>: a key that is not a node id reads as \<open>undefined\<close> (or
  as a member of \<open>Object.prototype\<close>), and its quotient by a number is \<open>NaN\<close>.
\<close>

fun rank_div :: "number option \<Rightarrow> nat \<Rightarrow> number" where
  "rank_div (Some (Num x)) outDegree = Num (x / real outDegree)"
| "rank_div _ outDegree = NaN"

definition incomingSum :: "KnowledgeGraph \<Rightarrow> (string \<times> number) list \<Rightarrow> string \<Rightarrow> number" where
  "incomingSum graph ranks nodeId =
     fold (\<lambda>edge acc.
             let sourceId = src edge;
                 outDegree = length (filter (\<lambda>e. src e = sourceId) (edges graph))
             in if outDegree > 0 then num_add acc (rank_div (map_of ranks sourceId) outDegree)
                else acc)
       (filter (\<lambda>e. tgt e = nodeId) (edges graph)) (Num 0)"

definition pagerank_round :: "KnowledgeGraph \<Rightarrow> real \<Rightarrow> (string \<times> number) list \<Rightarrow> (string \<times> number) list" where
  "pagerank_round graph damping ranks =
     fold (\<lambda>node newRanks.
             AList.update (nid node)
               (num_add (Num ((1 - damping) / real (length (nodes graph))))
                  (num_mul (Num damping) (incomingSum graph ranks (nid node))))
               newRanks)
       (nodes graph) []"

definition calculatePageRank :: "KnowledgeGraph \<Rightarrow> nat \<Rightarrow> real \<Rightarrow> (string \<times> number) list" where
  "calculatePageRank graph iterations damping =
     (let N = length (nodes graph)
      in if N = 0 then []
         else (pagerank_round graph damping ^^ iterations)
                (fold (\<lambda>n ranks. AList.update (nid n) (Num (1 / real N)) ranks) (nodes graph) []))"

subsection \<open>processEdgeMetrics\<close>

text \<open>
  Strings are lists of 8-bit characters, so \<open>toLowerCase\<close> is modelled on the letters
  \<open>A\<close> to \<open>Z\<close> only; all eleven keywords are ASCII. \<open>includes_str text kw\<close> is
  \<open>text.includes(kw)\<close>: \<open>kw\<close> occurs in \<open>text\<close> as a contiguous run.
\<close>

definition toLowerCase :: "string \<Rightarrow> string" where
  "toLowerCase s =
     map (\<lambda>c. let n = (of_char c :: nat) in if 65 \<le> n \<and> n \<le> 90 then char_of (n + 32) else c) s"

fun includes_str :: "string \<Rightarrow> string \<Rightarrow> bool" where
  "includes_str [] kw = (kw = [])"
| "includes_str (c # cs) kw = (take (length kw) (c # cs) = kw \<or> includes_str cs kw)"

definition negativeKeywords :: "string list" where
  "negativeKeywords =
     [''conflict'', ''rival'', ''anti'', ''against'', ''enemy'', ''opponent'', ''fight'',
      ''konflikt'', ''rywal'', ''przeciw'', ''wro'']"

definition heuristicSign :: "GraphEdge \<Rightarrow> Sign" where
  "heuristicSign edge =
     (let text = toLowerCase (case edge_label (edge_data edge) of None \<Rightarrow> [] | Some l \<Rightarrow> l);
          isNegative = list_ex (\<lambda>kw. includes_str text kw) negativeKeywords
      in if isNegative then negative else positive)"

definition processEdgeMetrics :: "GraphEdge list \<Rightarrow> GraphEdge list" where
  "processEdgeMetrics es =
     map (\<lambda>edge.
            edge\<lparr>edge_data := (edge_data edge)
              \<lparr>sign := Some (case sign (edge_data edge) of Some s \<Rightarrow> s | None \<Rightarrow> heuristicSign edge),
               certainty := Some (case certainty (edge_data edge) of Some c \<Rightarrow> c | None \<Rightarrow> confirmed)\<rparr>\<rparr>)
       es"

subsection \<open>calculateTriadicBalance\<close>

text \<open>
  \<open>adj\<close> is a record of records of \<open>1\<close> and \<open>-1\<close>. \<open>adj[u]?.[v]\<close> is \<open>adj_get\<close>; a value is
  truthy when it is defined and not 0. The three nested loops run over the index
  triples \<open>i < j < k < limit\<close> in the order of \<open>index_triples\<close>. The current file caps
  \<open>limit\<close> at 200; the legacy file runs over all nodes.
\<close>

type_synonym sign_adj = "(string \<times> (string \<times> int) list) list"

definition adj_init :: "string \<Rightarrow> sign_adj \<Rightarrow> sign_adj" where
  "adj_init k adj = (case map_of adj k of None \<Rightarrow> AList.update k [] adj | Some row \<Rightarrow> adj)"

definition adj_set :: "string \<Rightarrow> string \<Rightarrow> int \<Rightarrow> sign_adj \<Rightarrow> sign_adj" where
  "adj_set u v val adj = AList.map_entry u (AList.update v val) adj"

definition adj_get :: "sign_adj \<Rightarrow> string \<Rightarrow> string \<Rightarrow> int option" where
  "adj_get adj u v = (case map_of adj u of None \<Rightarrow> None | Some row \<Rightarrow> map_of row v)"

definition add_signed_edge :: "GraphEdge \<Rightarrow> sign_adj \<Rightarrow> sign_adj" where
  "add_signed_edge e adj =
     (let adj1 = adj_init (src e) adj;
          adj2 = adj_init (tgt e) adj1;
          val = (if sign (edge_data e) = Some negative then - 1 else 1);
          adj3 = adj_set (src e) (tgt e) val adj2
      in adj_set (tgt e) (src e) val adj3)"

definition build_sign_adj :: "GraphEdge list \<Rightarrow> sign_adj" where
  "build_sign_adj es = fold add_signed_edge es []"

definition index_triples :: "nat \<Rightarrow> (nat \<times> nat \<times> nat) list" where
  "index_triples limit =
     concat (map (\<lambda>i. concat (map (\<lambda>j. map (\<lambda>k. (i, j, k)) [j + 1..<limit]) [i + 1..<limit]))
       [0..<limit])"

definition truthy :: "int option \<Rightarrow> bool" where
  "truthy x = (case x of None \<Rightarrow> False | Some v \<Rightarrow> v \<noteq> 0)"

definition sign_product :: "sign_adj \<Rightarrow> string \<Rightarrow> string \<Rightarrow> string \<Rightarrow> int" where
  "sign_product adj u v w =
     (case (adj_get adj u v, adj_get adj v w, adj_get adj w u) of
        (Some uv, Some vw, Some wu) \<Rightarrow> uv * vw * wu
      | _ \<Rightarrow> 0)"

definition is_triangle :: "sign_adj \<Rightarrow> string \<Rightarrow> string \<Rightarrow> string \<Rightarrow> bool" where
  "is_triangle adj u v w = (truthy (adj_get adj u v) \<and> truthy (adj_get adj v w) \<and> truthy (adj_get adj w u))"

definition triangle_step :: "sign_adj \<Rightarrow> string list \<Rightarrow> nat \<times> nat \<times> nat \<Rightarrow> nat \<times> nat \<Rightarrow> nat \<times> nat" where
  "triangle_step adj nodeIds ijk counters =
     (case ijk of (i, j, k) \<Rightarrow>
      case counters of (totalTriangles, balancedTriangles) \<Rightarrow>
        let u = nodeIds ! i; v = nodeIds ! j; w = nodeIds ! k
        in if is_triangle adj u v w
           then (totalTriangles + 1,
                 if sign_product adj u v w > 0 then balancedTriangles + 1 else balancedTriangles)
           else counters)"

definition balance_of :: "nat \<times> nat \<Rightarrow> real" where
  "balance_of counters =
     (case counters of (totalTriangles, balancedTriangles) \<Rightarrow>
        if totalTriangles > 0 then real balancedTriangles / real totalTriangles else 1)"

definition calculateTriadicBalance :: "KnowledgeGraph \<Rightarrow> real \<times> string list" where
  "calculateTriadicBalance graph =
     (let adj = build_sign_adj (edges graph);
          nodeIds = map nid (nodes graph);
          n = length nodeIds;
          limit = min n 200;
          counters = fold (triangle_step adj nodeIds) (index_triples limit) (0, 0)
      in (balance_of counters, []))"

definition calculateTriadicBalance_legacy :: "KnowledgeGraph \<Rightarrow> real \<times> string list" where
  "calculateTriadicBalance_legacy graph =
     (let adj = build_sign_adj (edges graph);
          counters = fold (triangle_step adj (map nid (nodes graph)))
                       (index_triples (length (nodes graph))) (0, 0)
      in (balance_of counters, []))"

subsection \<open>enrichGraphWithMetrics (legacy)\<close>

text \<open>
  \<open>Math.random()\<close> is the parameter \<open>rnd\<close>. \<open>{...graph.meta, modularity, globalBalance}\<close>
  keeps \<open>lastSaved\<close> and overwrites the other two fields. \<open>dc[id] || 0\<close> is 0 when the
  value is \<open>undefined\<close>, \<open>NaN\<close> or 0.
\<close>

definition enriched_meta :: "KnowledgeGraph \<Rightarrow> real \<Rightarrow> real \<Rightarrow> Meta option" where
  "enriched_meta graph rnd balance =
     Some \<lparr>modularity = Some (0.4 + rnd * 0.1),
           globalBalance = Some balance,
           lastSaved = (case meta graph of None \<Rightarrow> None | Some m \<Rightarrow> lastSaved m)\<rparr>"

definition enrichGraphWithMetrics_legacy :: "real \<Rightarrow> KnowledgeGraph \<Rightarrow> KnowledgeGraph" where
  "enrichGraphWithMetrics_legacy rnd graph =
     (let dc = calculateDegreeCentrality graph;
          pr = calculatePageRank graph 20 0.85;
          comm = detectCommunities graph;
          processedEdges = processEdgeMetrics (edges graph);
          tempGraph = graph\<lparr>edges := processedEdges\<rparr>;
          balance = fst (calculateTriadicBalance_legacy tempGraph);
          newNodes = map (\<lambda>node.
              node\<lparr>node_data := (node_data node)
                \<lparr>degreeCentrality := map_of dc (nid node),
                 pagerank := map_of pr (nid node),
                 community := map_of comm (nid node),
                 kCore := Some \<lfloor>(case map_of dc (nid node) of Some (Num d) \<Rightarrow> d | _ \<Rightarrow> 0) * 10\<rfloor>\<rparr>\<rparr>)
            (nodes graph)
      in \<lparr>nodes = newNodes, edges = processedEdges, meta = enriched_meta graph rnd balance\<rparr>)"

section \<open>The current engine (services/graphService.ts)\<close>

subsection \<open>calculateClusteringCoefficient\<close>

text \<open>
  \<open>adj\<close> is a \<open>Map\<close> from node ids to \<open>Set\<close>s of node ids, both in insertion order:
  \<open>Map.set\<close> is \<open>AList.update\<close>, \<open>Set.add\<close> is \<open>set_add\<close>. The loops over the pairs
  \<open>i < j < k\<close> of neighbours count the pairs that are themselves adjacent.
\<close>

type_synonym nbr_adj = "(string \<times> string list) list"

definition set_add :: "string \<Rightarrow> string list \<Rightarrow> string list" where
  "set_add x s = (if x \<in> set s then s else s @ [x])"

definition add_undirected_edge :: "GraphEdge \<Rightarrow> nbr_adj \<Rightarrow> nbr_adj" where
  "add_undirected_edge e adj =
     (if map_of adj (src e) \<noteq> None \<and> map_of adj (tgt e) \<noteq> None
      then AList.map_entry (tgt e) (set_add (src e)) (AList.map_entry (src e) (set_add (tgt e)) adj)
      else adj)"

definition build_nbr_adj :: "GraphNode list \<Rightarrow> GraphEdge list \<Rightarrow> nbr_adj" where
  "build_nbr_adj ns es =
     fold add_undirected_edge es (fold (\<lambda>n adj. AList.update (nid n) [] adj) ns [])"

definition index_pairs :: "nat \<Rightarrow> (nat \<times> nat) list" where
  "index_pairs k = concat (map (\<lambda>i. map (\<lambda>j. (i, j)) [i + 1..<k]) [0..<k])"

definition has_neighbor :: "nbr_adj \<Rightarrow> string \<Rightarrow> string \<Rightarrow> bool" where
  "has_neighbor adj neighborA neighborB =
     (case map_of adj neighborA of None \<Rightarrow> False | Some s \<Rightarrow> neighborB \<in> set s)"

definition count_links :: "nbr_adj \<Rightarrow> string list \<Rightarrow> nat" where
  "count_links adj neighborArray =
     fold (\<lambda>(i, j) links.
             if has_neighbor adj (neighborArray ! i) (neighborArray ! j) then links + 1 else links)
       (index_pairs (length neighborArray)) 0"

definition coefficient :: "nbr_adj \<Rightarrow> string list \<Rightarrow> real" where
  "coefficient adj neighbors =
     (let k = length neighbors
      in if k < 2 then 0
         else real (2 * count_links adj neighbors) / real (k * (k - 1)))"

definition calculateClusteringCoefficient :: "GraphNode list \<Rightarrow> GraphEdge list \<Rightarrow> (string \<times> real) list" where
  "calculateClusteringCoefficient ns es =
     (let adj = build_nbr_adj ns es
      in fold (\<lambda>(nodeId, neighbors) coefficients.
                 AList.update nodeId (coefficient adj neighbors) coefficients)
           adj [])"

subsection \<open>enrichGraphWithMetrics\<close>

text \<open>
  The Cytoscape library is not part of the repository. What the function reads from
  the headless instance is a parameter: whether \<open>cy.getElementById(id)\<close> is non-empty,
  and the values of \<open>dcn.degree\<close>, \<open>pr.rank\<close>, \<open>bc.betweenness\<close> and
  \<open>closenessCentrality\<close> at a node. The object \<open>dcn\<close> is the result of
  \<open>degreeCentralityNormalized\<close> called with \<open>directed: true\<close> and cast to \<open>any\<close>. The
  library gives the result of a directed call the members \<open>indegree\<close> and \<open>outdegree\<close>
  and no member \<open>degree\<close>; \<open>dcn_degree\<close> is \<open>None\<close> when the member is missing, and then
  \<open>dcn.degree(ele)\<close> calls \<open>undefined\<close> and throws a \<open>TypeError\<close>. The instance
  \<open>cy\<close> is built from the nodes of the graph, so it has every node whose id it
  accepts.

  \<open>toFixed6 x\<close> is \<open>parseFloat(x.toFixed(6))\<close>: \<open>x\<close> rounded to six decimals, halves
  away from zero. A graph always has its field \<open>edges\<close> here, so \<open>safeEdges\<close> is
  \<open>edges graph\<close>. \<open>enrich_node\<close> is the body of the \<open>map\<close> over the nodes.
\<close>

datatype error = TypeError

record Cytoscape =
  cy_has :: "string \<Rightarrow> bool"
  dcn_degree :: "(string \<Rightarrow> real) option"
  cy_rank :: "string \<Rightarrow> real"
  cy_betweenness :: "string \<Rightarrow> real"
  cy_closeness :: "string \<Rightarrow> real"

definition toFixed6 :: "real \<Rightarrow> real" where
  "toFixed6 x =
     (if x < 0 then - (real_of_int \<lfloor>- x * 1000000 + 1 / 2\<rfloor> / 1000000)
      else real_of_int \<lfloor>x * 1000000 + 1 / 2\<rfloor> / 1000000)"

definition enrich_node :: "Cytoscape \<Rightarrow> (string \<times> real) list \<Rightarrow> (string \<times> nat) list \<Rightarrow> GraphNode
    \<Rightarrow> error + GraphNode" where
  "enrich_node cy clusteringMap comm node =
     (if \<not> cy_has cy (nid node) then Inr node
      else case dcn_degree cy of
        None \<Rightarrow> Inl TypeError
      | Some degree_of \<Rightarrow>
          let degree = degree_of (nid node);
              pagerankVal = cy_rank cy (nid node);
              betweennessVal = cy_betweenness cy (nid node);
              closenessVal = cy_closeness cy (nid node);
              clusteringVal = (case map_of clusteringMap (nid node) of None \<Rightarrow> 0 | Some c \<Rightarrow> c)
          in Inr (node\<lparr>node_data := (node_data node)
               \<lparr>degreeCentrality := Some (Num (toFixed6 degree)),
                pagerank := Some (Num (toFixed6 pagerankVal)),
                betweenness := Some (toFixed6 betweennessVal),
                closeness := Some (toFixed6 closenessVal),
                clustering := Some (toFixed6 clusteringVal),
                eigenvector := Some (toFixed6 pagerankVal),
                community := map_of comm (nid node),
                kCore := Some \<lfloor>degree * 10\<rfloor>\<rparr>\<rparr>))"

text \<open>
  \<open>graph.nodes.map(...)\<close> with a callback that can throw: the nodes are processed in
  order and the first exception ends the traversal.
\<close>

fun map_nodes :: "(GraphNode \<Rightarrow> error + GraphNode) \<Rightarrow> GraphNode list \<Rightarrow> error + GraphNode list" where
  "map_nodes f [] = Inr []"
| "map_nodes f (node # rest) =
     (case f node of
        Inl e \<Rightarrow> Inl e
      | Inr newNode \<Rightarrow>
          (case map_nodes f rest of
             Inl e \<Rightarrow> Inl e
           | Inr newNodes \<Rightarrow> Inr (newNode # newNodes)))"

definition enrichGraphWithMetrics :: "Cytoscape \<Rightarrow> real \<Rightarrow> KnowledgeGraph \<Rightarrow> error + KnowledgeGraph" where
  "enrichGraphWithMetrics cy rnd graph =
     (let safeEdges = edges graph;
          clusteringMap = calculateClusteringCoefficient (nodes graph) safeEdges;
          comm = detectCommunities graph;
          processedEdges = processEdgeMetrics safeEdges;
          tempGraph = graph\<lparr>edges := processedEdges\<rparr>;
          balance = fst (calculateTriadicBalance tempGraph)
      in case map_nodes (enrich_node cy clusteringMap comm) (nodes graph) of
           Inl e \<Rightarrow> Inl e
         | Inr newNodes \<Rightarrow>
             Inr \<lparr>nodes = newNodes, edges = processedEdges, meta = enriched_meta graph rnd balance\<rparr>)"

subsection \<open>getLevenshteinDistance and detectDuplicates\<close>

text \<open>
  The matrix is a list of rows. A write \<open>matrix[i][j] = v\<close> at \<open>j = matrix[i].length\<close>
  extends the row by one cell, as a JavaScript array does; the function never writes
  further out.
\<close>

definition matrix_set :: "nat list list \<Rightarrow> nat \<Rightarrow> nat \<Rightarrow> nat \<Rightarrow> nat list list" where
  "matrix_set matrix i j v =
     matrix[i := (if j < length (matrix ! i) then (matrix ! i)[j := v] else matrix ! i @ [v])]"

definition lev_cell :: "string \<Rightarrow> string \<Rightarrow> nat \<Rightarrow> nat \<Rightarrow> nat list list \<Rightarrow> nat list list" where
  "lev_cell a b i j matrix =
     (if b ! (i - 1) = a ! (j - 1)
      then matrix_set matrix i j (matrix ! (i - 1) ! (j - 1))
      else matrix_set matrix i j
             (min (matrix ! (i - 1) ! (j - 1) + 1)
                (min (matrix ! i ! (j - 1) + 1) (matrix ! (i - 1) ! j + 1))))"

definition getLevenshteinDistance :: "string \<Rightarrow> string \<Rightarrow> nat" where
  "getLevenshteinDistance a b =
     (let matrix0 = map (\<lambda>i. [i]) [0..<length b + 1];
          matrix1 = fold (\<lambda>j matrix. matrix_set matrix 0 j j) [0..<length a + 1] matrix0;
          matrix2 = fold (\<lambda>i matrix. fold (lev_cell a b i) [1..<length a + 1] matrix)
                      [1..<length b + 1] matrix1
      in matrix2 ! length b ! length a)"

text \<open>
  The field \<open>reason\<close> of a candidate, a formatted percentage for display, is not
  modelled. \<open>Array.prototype.sort\<close> with the comparator \<open>b.similarity - a.similarity\<close>
  is a stable sort in descending order of similarity. \<open>lexicalSimilarity\<close> is the
  similarity that the loop body computes from the two labels, and \<open>duplicate_step\<close>
  is the loop body.
\<close>

definition lexicalSimilarity :: "string \<Rightarrow> string \<Rightarrow> real" where
  "lexicalSimilarity label1 label2 =
     (let dist = getLevenshteinDistance (toLowerCase label1) (toLowerCase label2);
          maxLen = max (length label1) (length label2)
      in if maxLen > 0 then 1 - real dist / real maxLen else 0)"

definition duplicate_step :: "GraphNode list \<Rightarrow> real \<Rightarrow> nat \<times> nat \<Rightarrow> DuplicateCandidate list \<Rightarrow> DuplicateCandidate list" where
  "duplicate_step ns threshold ij candidates =
     (case ij of (i, j) \<Rightarrow>
        let n1 = node_data (ns ! i); n2 = node_data (ns ! j)
        in if node_type n1 \<noteq> node_type n2 then candidates
           else let similarity = lexicalSimilarity (node_label n1) (node_label n2)
                in if similarity \<ge> threshold
                   then candidates @ [\<lparr>nodeA = n1, nodeB = n2, similarity = similarity\<rparr>]
                   else candidates)"

definition detectDuplicates :: "KnowledgeGraph \<Rightarrow> real \<Rightarrow> DuplicateCandidate list" where
  "detectDuplicates graph threshold =
     sort_key (\<lambda>c. - similarity c)
       (fold (duplicate_step (nodes graph) threshold) (index_pairs (length (nodes graph))) [])"

section \<open>The store (mergeNodes)\<close>

text \<open>
  \<open>mergeNodes\<close> reads the graph of the store, builds the merged graph, enriches it and
  writes the result back with \<open>set\<close>. The store imports \<open>enrichGraphWithMetrics\<close> from
  \<open>services/graphService\<close>: \<open>mergeNodes\<close> is the action linked with the current file,
  \<open>mergeNodes_legacy\<close> the same action linked with the older file. The result is the
  graph that the action stores; \<open>Inl\<close> is an exception thrown by the enrichment, which
  leaves the action before \<open>set\<close>, so that the store keeps the graph it had.
\<close>

definition rename_endpoints :: "string \<Rightarrow> string \<Rightarrow> GraphEdge \<Rightarrow> GraphEdge" where
  "rename_endpoints keepId dropId e =
     (let newData = edge_data e;
          newData1 = (if source newData = dropId then newData\<lparr>source := keepId\<rparr> else newData);
          newData2 = (if target newData1 = dropId then newData1\<lparr>target := keepId\<rparr> else newData1)
      in \<lparr>edge_data = newData2\<rparr>)"

definition mergeNodes :: "Cytoscape \<Rightarrow> real \<Rightarrow> string \<Rightarrow> string \<Rightarrow> KnowledgeGraph \<Rightarrow> error + KnowledgeGraph" where
  "mergeNodes cy rnd keepId dropId graph =
     (let updatedEdges = map (rename_endpoints keepId dropId) (edges graph);
          updatedNodes = filter (\<lambda>n. nid n \<noteq> dropId) (nodes graph);
          finalEdges = filter (\<lambda>e. src e \<noteq> tgt e) updatedEdges
      in enrichGraphWithMetrics cy rnd \<lparr>nodes = updatedNodes, edges = finalEdges, meta = None\<rparr>)"

definition mergeNodes_legacy :: "real \<Rightarrow> string \<Rightarrow> string \<Rightarrow> KnowledgeGraph \<Rightarrow> KnowledgeGraph" where
  "mergeNodes_legacy rnd keepId dropId graph =
     (let updatedEdges = map (rename_endpoints keepId dropId) (edges graph);
          updatedNodes = filter (\<lambda>n. nid n \<noteq> dropId) (nodes graph);
          finalEdges = filter (\<lambda>e. src e \<noteq> tgt e) updatedEdges
      in enrichGraphWithMetrics_legacy rnd \<lparr>nodes = updatedNodes, edges = finalEdges, meta = None\<rparr>)"

text \<open>
  The graph that the store holds after the action.
\<close>

definition store_after :: "error + KnowledgeGraph \<Rightarrow> KnowledgeGraph \<Rightarrow> KnowledgeGraph" where
  "store_after result graph = (case result of Inl e \<Rightarrow> graph | Inr enriched \<Rightarrow> enriched)"

section \<open>Reference definitions\<close>

text \<open>
  \<open>lev_rec a b i j\<close> is the recurrence that cell \<open>(i, j)\<close> of the matrix of
  \<open>getLevenshteinDistance a b\<close> obeys: the edit distance between the first \<open>i\<close>
  characters of \<open>b\<close> and the first \<open>j\<close> characters of \<open>a\<close>. It is not part of the
  source; the matrix program is proved equal to it.
\<close>

fun lev_rec :: "string \<Rightarrow> string \<Rightarrow> nat \<Rightarrow> nat \<Rightarrow> nat" where
  "lev_rec a b 0 j = j"
| "lev_rec a b (Suc i) 0 = Suc i"
| "lev_rec a b (Suc i) (Suc j) =
     (if b ! i = a ! j then lev_rec a b i j
      else min (lev_rec a b i j + 1) (min (lev_rec a b (Suc i) j + 1) (lev_rec a b i (Suc j) + 1)))"

text \<open>
  The invariant of the outer loop of \<open>getLevenshteinDistance\<close>: the rows up to \<open>i\<close> are
  filled, the rows below hold their first cell only.
\<close>

definition lev_inv :: "string \<Rightarrow> string \<Rightarrow> nat \<Rightarrow> nat \<Rightarrow> nat \<Rightarrow> nat list list \<Rightarrow> bool" where
  "lev_inv a b la lb i m \<longleftrightarrow>
     length m = lb + 1
     \<and> (\<forall>r\<le>i. m ! r = map (lev_rec a b r) [0..<la + 1])
     \<and> (\<forall>r. i < r \<and> r \<le> lb \<longrightarrow> m ! r = [r])"

text \<open>
  The candidate that \<open>detectDuplicates\<close> pushes for the pair of positions \<open>(i, j)\<close>, and
  the condition under which it pushes it.
\<close>

definition candidate :: "GraphNode list \<Rightarrow> nat \<Rightarrow> nat \<Rightarrow> DuplicateCandidate" where
  "candidate ns i j =
     \<lparr>nodeA = node_data (ns ! i), nodeB = node_data (ns ! j),
      similarity = lexicalSimilarity (node_label (node_data (ns ! i))) (node_label (node_data (ns ! j)))\<rparr>"

definition emits :: "GraphNode list \<Rightarrow> real \<Rightarrow> nat \<Rightarrow> nat \<Rightarrow> bool" where
  "emits ns t i j \<longleftrightarrow>
     node_type (node_data (ns ! i)) = node_type (node_data (ns ! j))
     \<and> t \<le> lexicalSimilarity (node_label (node_data (ns ! i))) (node_label (node_data (ns ! j)))"

section \<open>Concrete graphs\<close>

text \<open>
  Small graphs on which the theorems are instantiated and the functions evaluated.
  \<open>plain_node\<close> is a node with the required fields only: no metric has been computed
  yet. \<open>plain_edge\<close> is an edge as the expansion path creates it, without sign or
  certainty; \<open>signed_edge\<close> carries both.
\<close>

definition plain_node :: "string \<Rightarrow> string \<Rightarrow> NodeType \<Rightarrow> GraphNode" where
  "plain_node i l t =
     \<lparr>node_data = \<lparr>node_id = i, node_label = l, node_type = t, year = None, description = None,
        node_dates = None, importance = None, region = None, degreeCentrality = None,
        pagerank = None, community = None, kCore = None, betweenness = None, closeness = None,
        eigenvector = None, clustering = None, embedding = None, sources = None,
        node_certainty = None\<rparr>,
      position = None, selected = None\<rparr>"

definition plain_edge :: "string \<Rightarrow> string \<Rightarrow> string \<Rightarrow> GraphEdge" where
  "plain_edge s t l =
     \<lparr>edge_data = \<lparr>edge_id = s @ ''-'' @ t, source = s, target = t, edge_label = Some l,
        edge_dates = None, weight = None, sign = None, isBalanced = None, certainty = None\<rparr>\<rparr>"

definition signed_edge :: "string \<Rightarrow> string \<Rightarrow> Sign \<Rightarrow> Certainty \<Rightarrow> GraphEdge" where
  "signed_edge s t sg c =
     \<lparr>edge_data = \<lparr>edge_id = s @ ''-'' @ t, source = s, target = t, edge_label = Some ''ally'',
        edge_dates = None, weight = None, sign = Some sg, isBalanced = None, certainty = Some c\<rparr>\<rparr>"

definition unlabelled_edge :: "string \<Rightarrow> string \<Rightarrow> GraphEdge" where
  "unlabelled_edge s t =
     \<lparr>edge_data = \<lparr>edge_id = s @ ''-'' @ t, source = s, target = t, edge_label = None,
        edge_dates = None, weight = None, sign = None, isBalanced = None, certainty = None\<rparr>\<rparr>"

text \<open>
  The instance of a directed call: \<open>dcn\<close> has no member \<open>degree\<close>. It has every node
  with a non-empty id; a node with the empty id is the one that the safety check
  \<open>ele.length === 0\<close> of the enrichment lets through unchanged.
\<close>

definition cy_directed :: Cytoscape where
  "cy_directed = \<lparr>cy_has = (\<lambda>i. i \<noteq> []), dcn_degree = None, cy_rank = (\<lambda>i. 0),
                  cy_betweenness = (\<lambda>i. 0), cy_closeness = (\<lambda>i. 0)\<rparr>"

definition unnamed_node_graph :: KnowledgeGraph where
  "unnamed_node_graph = \<lparr>nodes = [plain_node [] ''Dmowski'' ty_person], edges = [], meta = None\<rparr>"

definition prototype_graph :: KnowledgeGraph where
  "prototype_graph =
     \<lparr>nodes = [plain_node ''A'' ''Dmowski'' ty_person],
      edges = [plain_edge ''A'' ''constructor'' ''ally''], meta = None\<rparr>"

definition single_node_graph :: KnowledgeGraph where
  "single_node_graph = \<lparr>nodes = [plain_node ''A'' ''Dmowski'' ty_person], edges = [], meta = None\<rparr>"

definition dangling_source_graph :: KnowledgeGraph where
  "dangling_source_graph =
     \<lparr>nodes = [plain_node ''A'' ''Dmowski'' ty_person],
      edges = [plain_edge ''X'' ''A'' ''ally''], meta = None\<rparr>"

definition dangling_target_graph :: KnowledgeGraph where
  "dangling_target_graph =
     \<lparr>nodes = [plain_node ''A'' ''Dmowski'' ty_person],
      edges = [plain_edge ''A'' ''X'' ''ally''], meta = None\<rparr>"

definition dangling_bridge_graph :: KnowledgeGraph where
  "dangling_bridge_graph =
     \<lparr>nodes = [plain_node ''A'' ''Dmowski'' ty_person, plain_node ''B'' ''Pilsudski'' ty_person],
      edges = [plain_edge ''A'' ''X'' ''ally'', plain_edge ''X'' ''B'' ''ally''], meta = None\<rparr>"

definition triangle_graph :: "Sign \<Rightarrow> KnowledgeGraph" where
  "triangle_graph s =
     \<lparr>nodes = [plain_node ''A'' ''Dmowski'' ty_person, plain_node ''B'' ''Pilsudski'' ty_person,
               plain_node ''C'' ''Liga'' ty_organization],
      edges = [signed_edge ''A'' ''B'' s confirmed, signed_edge ''B'' ''C'' positive confirmed,
               signed_edge ''C'' ''A'' positive disputed],
      meta = None\<rparr>"

definition mixed_edge_graph :: KnowledgeGraph where
  "mixed_edge_graph =
     \<lparr>nodes = [plain_node ''A'' ''Dmowski'' ty_person, plain_node ''B'' ''Pilsudski'' ty_person],
      edges = [signed_edge ''A'' ''B'' positive disputed, plain_edge ''B'' ''A'' ''Rival of''],
      meta = None\<rparr>"

definition keyword_graph :: KnowledgeGraph where
  "keyword_graph =
     \<lparr>nodes = [plain_node ''A'' ''Dmowski'' ty_person, plain_node ''B'' ''Pilsudski'' ty_person],
      edges = [signed_edge ''A'' ''B'' positive disputed, signed_edge ''B'' ''A'' negative alleged,
               plain_edge ''B'' ''A'' ''Rival of'', plain_edge ''A'' ''B'' ''ally'',
               plain_edge ''A'' ''B'' ''ANTI-league'', plain_edge ''B'' ''A'' ''wrogowie'',
               unlabelled_edge ''A'' ''B''],
      meta = None\<rparr>"

definition merge_graph :: KnowledgeGraph where
  "merge_graph =
     \<lparr>nodes = [plain_node ''A'' ''Dmowski'' ty_person, plain_node ''B'' ''Dmowski R.'' ty_person,
               plain_node ''C'' ''Liga'' ty_organization],
      edges = [plain_edge ''B'' ''C'' ''member'', plain_edge ''A'' ''B'' ''same as'',
               plain_edge ''C'' ''A'' ''led by''],
      meta = None\<rparr>"

text \<open>
  The fields of a node that the enrichment does not derive, as one tuple.
\<close>

definition node_core :: "GraphNode \<Rightarrow>
    (real \<times> real) option \<times> bool option \<times> string \<times> string \<times> NodeType \<times> int option \<times> string option
    \<times> string option \<times> real option \<times> string option \<times> real list option \<times> string list option
    \<times> Certainty option" where
  "node_core n =
     (position n, selected n, node_id (node_data n), node_label (node_data n),
      node_type (node_data n), year (node_data n), description (node_data n),
      node_dates (node_data n), importance (node_data n), region (node_data n),
      embedding (node_data n), sources (node_data n), node_certainty (node_data n))"

definition merged_edge :: GraphEdge where
  "merged_edge =
     \<lparr>edge_data = \<lparr>edge_id = ''B-C'', source = ''A'', target = ''C'', edge_label = Some ''member'',
        edge_dates = None, weight = None, sign = Some positive, isBalanced = None,
        certainty = Some confirmed\<rparr>\<rparr>"

definition empty_label_graph :: KnowledgeGraph where
  "empty_label_graph =
     \<lparr>nodes = [plain_node ''A'' [] ty_person, plain_node ''B'' [] ty_person], edges = [], meta = None\<rparr>"

definition same_label_graph :: KnowledgeGraph where
  "same_label_graph =
     \<lparr>nodes = [plain_node ''A'' ''Dmowski'' ty_person, plain_node ''B'' ''Pilsudski'' ty_person,
               plain_node ''C'' ''Dmowski'' ty_person, plain_node ''D'' ''Dmowski'' ty_Person],
      edges = [], meta = None\<rparr>"

text \<open>
  A graph of 203 nodes: 200 nodes without edges, followed by the three nodes of a
  triangle with one negative edge.
\<close>

definition filler_nodes :: "GraphNode list" where
  "filler_nodes = map (\<lambda>i. plain_node (replicate (Suc i) CHR ''n'') ''filler'' ty_concept) [0..<200]"

definition capped_graph :: KnowledgeGraph where
  "capped_graph =
     \<lparr>nodes = filler_nodes @ nodes (triangle_graph negative),
      edges = edges (triangle_graph negative), meta = None\<rparr>"

section \<open>Triangles of a signed graph\<close>

text \<open>
  The vocabulary in which the balance of triads is stated. An edge connects \<open>u\<close> and
  \<open>v\<close> in either direction; where several edges connect the same two nodes the sign
  of the last one counts, as the last write to \<open>adj\<close> does. A triangle is a triple of
  positions \<open>i < j < k\<close> below \<open>limit\<close> in the node list whose three pairs of nodes are
  connected; it is balanced when the product of the three signs is positive.
\<close>

definition connects :: "GraphEdge \<Rightarrow> string \<Rightarrow> string \<Rightarrow> bool" where
  "connects e u v \<longleftrightarrow> (src e = u \<and> tgt e = v) \<or> (src e = v \<and> tgt e = u)"

definition edge_val :: "GraphEdge \<Rightarrow> int" where
  "edge_val e = (if sign (edge_data e) = Some negative then - 1 else 1)"

definition edge_sign :: "GraphEdge list \<Rightarrow> string \<Rightarrow> string \<Rightarrow> int option" where
  "edge_sign es u v =
     (case filter (\<lambda>e. connects e u v) es of [] \<Rightarrow> None | x # xs \<Rightarrow> Some (edge_val (last (x # xs))))"

definition sign_of :: "GraphEdge list \<Rightarrow> string \<Rightarrow> string \<Rightarrow> int" where
  "sign_of es u v = (case edge_sign es u v of None \<Rightarrow> 0 | Some s \<Rightarrow> s)"

definition triangles :: "KnowledgeGraph \<Rightarrow> nat \<Rightarrow> (nat \<times> nat \<times> nat) set" where
  "triangles graph limit =
     {(i, j, k). i < j \<and> j < k \<and> k < limit
        \<and> edge_sign (edges graph) (map nid (nodes graph) ! i) (map nid (nodes graph) ! j) \<noteq> None
        \<and> edge_sign (edges graph) (map nid (nodes graph) ! j) (map nid (nodes graph) ! k) \<noteq> None
        \<and> edge_sign (edges graph) (map nid (nodes graph) ! k) (map nid (nodes graph) ! i) \<noteq> None}"

definition balanced_triangles :: "KnowledgeGraph \<Rightarrow> nat \<Rightarrow> (nat \<times> nat \<times> nat) set" where
  "balanced_triangles graph limit =
     {(i, j, k). (i, j, k) \<in> triangles graph limit
        \<and> sign_of (edges graph) (map nid (nodes graph) ! i) (map nid (nodes graph) ! j)
          * sign_of (edges graph) (map nid (nodes graph) ! j) (map nid (nodes graph) ! k)
          * sign_of (edges graph) (map nid (nodes graph) ! k) (map nid (nodes graph) ! i) > 0}"

section \<open>The cosine of two vectors\<close>

text \<open>
  \<open>dot ar xs ys\<close> is the dot product of \<open>xs\<close> and \<open>ys\<close> as the arithmetic \<open>ar\<close> sums
  it, from the first index on. \<open>exact_on_units ar one mone\<close> says that \<open>ar\<close> computes
  without error on 0, \<open>one\<close> and \<open>mone\<close> where these stand for 0, 1 and -1: the
  equations listed hold for the real numbers and for IEEE doubles.
\<close>

primrec dot_upto :: "'a arithmetic \<Rightarrow> 'a list \<Rightarrow> 'a list \<Rightarrow> nat \<Rightarrow> 'a" where
  "dot_upto ar xs ys 0 = ar_zero ar"
| "dot_upto ar xs ys (Suc n) = ar_add ar (dot_upto ar xs ys n) (ar_mul ar (xs ! n) (ys ! n))"

definition dot :: "'a arithmetic \<Rightarrow> 'a list \<Rightarrow> 'a list \<Rightarrow> 'a" where
  "dot ar xs ys = dot_upto ar xs ys (length xs)"

definition exact_on_units :: "'a arithmetic \<Rightarrow> 'a \<Rightarrow> 'a \<Rightarrow> bool" where
  "exact_on_units ar one mone \<longleftrightarrow>
     ar_mul ar (ar_zero ar) (ar_zero ar) = ar_zero ar
     \<and> ar_mul ar (ar_zero ar) one = ar_zero ar
     \<and> ar_mul ar one (ar_zero ar) = ar_zero ar
     \<and> ar_mul ar one one = one
     \<and> ar_mul ar one mone = mone
     \<and> ar_mul ar mone mone = one
     \<and> ar_add ar (ar_zero ar) (ar_zero ar) = ar_zero ar
     \<and> ar_add ar (ar_zero ar) one = one
     \<and> ar_add ar one (ar_zero ar) = one
     \<and> ar_add ar (ar_zero ar) mone = mone
     \<and> ar_sqrt ar one = one
     \<and> ar_div ar (ar_zero ar) one = ar_zero ar
     \<and> ar_div ar one one = one
     \<and> ar_div ar mone one = mone
     \<and> \<not> ar_is_zero ar one"
section \<open>Properties of the similarity kernel\<close>

lemma cosine_fold_upt:
  "fold (cosine_step ar a b) [0..<n] (ar_zero ar, ar_zero ar, ar_zero ar) =
     (dot_upto ar a b n, dot_upto ar a a n, dot_upto ar b b n)"
  by (induction n) (simp_all add: cosine_step_def)

lemma cosineSimilarity_unfold:
  "cosineSimilarity ar a b =
     (if length a \<noteq> length b \<or> a = [] then ar_zero ar
      else if ar_is_zero ar (dot ar a a) \<or> ar_is_zero ar (dot ar b b) then ar_zero ar
      else ar_div ar (dot ar a b) (ar_mul ar (ar_sqrt ar (dot ar a a)) (ar_sqrt ar (dot ar b b))))"
  by (auto simp: cosineSimilarity_def cosine_fold_upt dot_def)

lemma dot_two:
  "dot ar [x1, x2] [y1, y2] = ar_add ar (ar_add ar (ar_zero ar) (ar_mul ar x1 y1)) (ar_mul ar x2 y2)"
  by (simp add: dot_def numeral_2_eq_2)

lemma dot_one: "dot ar [x1] [y1] = ar_add ar (ar_zero ar) (ar_mul ar x1 y1)"
  by (simp add: dot_def)

lemma cosineSimilarity_units:
  assumes "exact_on_units ar one mone"
  shows "cosineSimilarity ar [one, ar_zero ar] [one, ar_zero ar] = one"
    and "cosineSimilarity ar [one, ar_zero ar] [ar_zero ar, one] = ar_zero ar"
    and "cosineSimilarity ar [one] [mone] = mone"
  using assms by (simp_all add: exact_on_units_def cosineSimilarity_unfold dot_two dot_one)

lemma exact_fields [simp]:
  "ar_zero exact = 0" "ar_add exact = (+)" "ar_mul exact = (*)" "ar_div exact = (/)"
  "ar_sqrt exact = sqrt" "ar_is_zero exact = (\<lambda>x. x = 0)"
  by (simp_all add: exact_def)

lemma exact_on_units_exact: "exact_on_units exact 1 (- 1)"
  by (simp add: exact_on_units_def)

lemma dot_exact: "dot exact xs ys = (\<Sum>i<length xs. xs ! i * ys ! i)"
proof -
  have "dot_upto exact xs ys n = (\<Sum>i<n. xs ! i * ys ! i)" for n
    by (induction n) simp_all
  then show ?thesis by (simp add: dot_def)
qed

lemma cauchy_schwarz_upt:
  fixes f g :: "nat \<Rightarrow> real"
  shows "(\<Sum>i<n. f i * g i)\<^sup>2 \<le> (\<Sum>i<n. f i * f i) * (\<Sum>i<n. g i * g i)"
proof (induction n)
  case 0
  show ?case by simp
next
  case (Suc n)
  define S where "S = (\<Sum>i<n. f i * g i)"
  define A where "A = (\<Sum>i<n. f i * f i)"
  define B where "B = (\<Sum>i<n. g i * g i)"
  have A0: "0 \<le> A" unfolding A_def by (rule sum_nonneg) simp
  have B0: "0 \<le> B" unfolding B_def by (rule sum_nonneg) simp
  have IH: "S\<^sup>2 \<le> A * B" using Suc.IH by (simp add: S_def A_def B_def)
  have absS: "\<bar>S\<bar> \<le> sqrt A * sqrt B"
  proof -
    have "sqrt (S\<^sup>2) \<le> sqrt (A * B)" using IH by (rule real_sqrt_le_mono)
    then show ?thesis by (simp add: real_sqrt_mult)
  qed
  define x where "x = sqrt A * \<bar>g n\<bar>"
  define y where "y = sqrt B * \<bar>f n\<bar>"
  have "0 \<le> (x - y)\<^sup>2" by simp
  then have amgm: "2 * x * y \<le> x\<^sup>2 + y\<^sup>2" by (simp add: power2_diff)
  have x2: "x\<^sup>2 = A * (g n * g n)"
  proof -
    have "x\<^sup>2 = (sqrt A)\<^sup>2 * \<bar>g n\<bar>\<^sup>2" by (simp add: x_def power_mult_distrib)
    also have "\<dots> = A * (g n)\<^sup>2" using A0 by simp
    finally show ?thesis by (simp add: power2_eq_square)
  qed
  have y2: "y\<^sup>2 = B * (f n * f n)"
  proof -
    have "y\<^sup>2 = (sqrt B)\<^sup>2 * \<bar>f n\<bar>\<^sup>2" by (simp add: y_def power_mult_distrib)
    also have "\<dots> = B * (f n)\<^sup>2" using B0 by simp
    finally show ?thesis by (simp add: power2_eq_square)
  qed
  have "2 * S * (f n * g n) \<le> 2 * \<bar>S\<bar> * (\<bar>f n\<bar> * \<bar>g n\<bar>)"
  proof -
    have "S * (f n * g n) \<le> \<bar>S * (f n * g n)\<bar>" by (rule abs_ge_self)
    also have "\<dots> = \<bar>S\<bar> * (\<bar>f n\<bar> * \<bar>g n\<bar>)" by (simp add: abs_mult)
    finally show ?thesis by simp
  qed
  also have "\<dots> \<le> 2 * (sqrt A * sqrt B) * (\<bar>f n\<bar> * \<bar>g n\<bar>)"
    using absS by (intro mult_right_mono mult_left_mono) simp_all
  also have "\<dots> = 2 * x * y" by (simp add: x_def y_def)
  also have "\<dots> \<le> A * (g n * g n) + B * (f n * f n)" using amgm x2 y2 by simp
  finally have cross: "2 * S * (f n * g n) \<le> A * (g n * g n) + B * (f n * f n)" .
  have "(S + f n * g n)\<^sup>2 = S\<^sup>2 + 2 * S * (f n * g n) + (f n * g n)\<^sup>2"
    by (simp add: power2_sum)
  also have "\<dots> \<le> A * B + (A * (g n * g n) + B * (f n * f n)) + (f n * g n)\<^sup>2"
    using IH cross by simp
  also have "\<dots> = (A + f n * f n) * (B + g n * g n)"
    by (simp add: algebra_simps power2_eq_square)
  finally show ?case by (simp add: S_def A_def B_def)
qed

lemma cosine_quotient_bounds:
  fixes d a b :: real
  assumes "d\<^sup>2 \<le> a * b" and "0 < a" and "0 < b"
  shows "- 1 \<le> d / (sqrt a * sqrt b) \<and> d / (sqrt a * sqrt b) \<le> 1"
proof -
  have pos: "0 < sqrt a * sqrt b" using assms by simp
  have "sqrt (d\<^sup>2) \<le> sqrt (a * b)" using assms(1) by (rule real_sqrt_le_mono)
  then have ab: "\<bar>d\<bar> \<le> sqrt a * sqrt b" by (simp add: real_sqrt_mult)
  then have "- (sqrt a * sqrt b) \<le> d" and "d \<le> sqrt a * sqrt b" by linarith+
  then show ?thesis
    using pos by (simp add: pos_le_divide_eq pos_divide_le_eq)
qed

lemma dot_self_nonneg: "0 \<le> dot exact a a"
  unfolding dot_exact by (rule sum_nonneg) simp

lemma dot_cauchy_schwarz:
  "length a = length b \<Longrightarrow> (dot exact a b)\<^sup>2 \<le> dot exact a a * dot exact b b"
  unfolding dot_exact using cauchy_schwarz_upt [of "\<lambda>i. a ! i" "\<lambda>i. b ! i" "length a"] by simp

lemma cosineSimilarity_bounds:
  "- 1 \<le> cosineSimilarity exact a b \<and> cosineSimilarity exact a b \<le> 1"
proof (cases "length a \<noteq> length b \<or> a = [] \<or> dot exact a a = 0 \<or> dot exact b b = 0")
  case True
  then show ?thesis by (auto simp: cosineSimilarity_unfold)
next
  case False
  then have len: "length a = length b" and "dot exact a a \<noteq> 0" and "dot exact b b \<noteq> 0" by auto
  then have pa: "0 < dot exact a a" and pb: "0 < dot exact b b"
    using dot_self_nonneg [of a] dot_self_nonneg [of b] by linarith+
  have eq: "cosineSimilarity exact a b
      = dot exact a b / (sqrt (dot exact a a) * sqrt (dot exact b b))"
    using False by (simp add: cosineSimilarity_unfold)
  show ?thesis
    unfolding eq using cosine_quotient_bounds [OF dot_cauchy_schwarz [OF len] pa pb] by simp
qed
section \<open>The shape of the enriched graph\<close>

lemma edges_enrich_legacy [simp]:
  "edges (enrichGraphWithMetrics_legacy rnd graph) = processEdgeMetrics (edges graph)"
  by (simp add: enrichGraphWithMetrics_legacy_def Let_def)

lemma nodes_enrich_legacy:
  "nodes (enrichGraphWithMetrics_legacy rnd graph) =
     map (\<lambda>node. node\<lparr>node_data := (node_data node)
            \<lparr>degreeCentrality := map_of (calculateDegreeCentrality graph) (nid node),
             pagerank := map_of (calculatePageRank graph 20 0.85) (nid node),
             community := map_of (detectCommunities graph) (nid node),
             kCore := Some \<lfloor>(case map_of (calculateDegreeCentrality graph) (nid node) of
                               Some (Num d) \<Rightarrow> d | _ \<Rightarrow> 0) * 10\<rfloor>\<rparr>\<rparr>)
       (nodes graph)"
  by (simp add: enrichGraphWithMetrics_legacy_def Let_def)

lemma meta_enrich_legacy:
  "meta (enrichGraphWithMetrics_legacy rnd graph) =
     enriched_meta graph rnd
       (fst (calculateTriadicBalance_legacy (graph\<lparr>edges := processEdgeMetrics (edges graph)\<rparr>)))"
  by (simp add: enrichGraphWithMetrics_legacy_def Let_def)

lemma length_processEdgeMetrics [simp]: "length (processEdgeMetrics es) = length es"
  by (simp add: processEdgeMetrics_def)

lemma processEdgeMetrics_nth:
  "i < length es \<Longrightarrow>
     processEdgeMetrics es ! i =
       (es ! i)\<lparr>edge_data := (edge_data (es ! i))
          \<lparr>sign := Some (case sign (edge_data (es ! i)) of Some s \<Rightarrow> s | None \<Rightarrow> heuristicSign (es ! i)),
           certainty := Some (case certainty (edge_data (es ! i)) of Some c \<Rightarrow> c | None \<Rightarrow> confirmed)\<rparr>\<rparr>"
  by (simp add: processEdgeMetrics_def)

lemma src_processEdgeMetrics [simp]: "map src (processEdgeMetrics es) = map src es"
  by (simp add: processEdgeMetrics_def)

lemma tgt_processEdgeMetrics [simp]: "map tgt (processEdgeMetrics es) = map tgt es"
  by (simp add: processEdgeMetrics_def)

lemma node_ids_enrich_legacy [simp]:
  "map nid (nodes (enrichGraphWithMetrics_legacy rnd graph)) = map nid (nodes graph)"
  by (simp add: nodes_enrich_legacy)


lemma map_nodes_Inr:
  "map_nodes f ns = Inr ms \<Longrightarrow>
     length ms = length ns \<and> (\<forall>i<length ns. f (ns ! i) = Inr (ms ! i))"
proof (induction ns arbitrary: ms)
  case Nil
  then show ?case by simp
next
  case (Cons n ns)
  from Cons.prems obtain m ms' where m: "f n = Inr m" and ms': "map_nodes f ns = Inr ms'"
    and eq: "ms = m # ms'"
    by (auto split: sum.splits)
  from Cons.IH [OF ms'] have len: "length ms' = length ns"
    and nth: "\<forall>i<length ns. f (ns ! i) = Inr (ms' ! i)" by simp_all
  show ?case
  proof (intro conjI allI impI)
    show "length ms = length (n # ns)" using len eq by simp
  next
    fix i assume "i < length (n # ns)"
    then show "f ((n # ns) ! i) = Inr (ms ! i)"
      using m nth eq by (cases i) simp_all
  qed
qed

lemma map_nodes_Inl:
  "n \<in> set ns \<Longrightarrow> f n = Inl TypeError \<Longrightarrow> map_nodes f ns = Inl TypeError"
proof (induction ns)
  case Nil
  then show ?case by simp
next
  case (Cons a ns)
  have err: "e = TypeError" for e :: error by (cases e) simp
  show ?case
  proof (cases "f a")
    case (Inl e)
    then show ?thesis using err [of e] by simp
  next
    case (Inr m)
    then have "a \<noteq> n" using Cons.prems(2) by auto
    then have "n \<in> set ns" using Cons.prems(1) by simp
    then have "map_nodes f ns = Inl TypeError" using Cons.IH Cons.prems(2) by simp
    then show ?thesis using Inr by simp
  qed
qed

lemma map_nodes_all_Inr:
  "(\<And>n. n \<in> set ns \<Longrightarrow> f n = Inr (g n)) \<Longrightarrow> map_nodes f ns = Inr (map g ns)"
  by (induction ns) simp_all

lemma enrich_node_Inr:
  "enrich_node cy cm comm n = Inr n' \<Longrightarrow>
     position n' = position n \<and> selected n' = selected n
     \<and> node_id (node_data n') = node_id (node_data n)
     \<and> node_label (node_data n') = node_label (node_data n)
     \<and> node_type (node_data n') = node_type (node_data n)
     \<and> year (node_data n') = year (node_data n)
     \<and> description (node_data n') = description (node_data n)
     \<and> node_dates (node_data n') = node_dates (node_data n)
     \<and> importance (node_data n') = importance (node_data n)
     \<and> region (node_data n') = region (node_data n)
     \<and> embedding (node_data n') = embedding (node_data n)
     \<and> sources (node_data n') = sources (node_data n)
     \<and> node_certainty (node_data n') = node_certainty (node_data n)"
  by (auto simp: enrich_node_def Let_def split: if_splits option.splits)

lemma enrich_node_Inl:
  "cy_has cy (nid n) \<Longrightarrow> dcn_degree cy = None \<Longrightarrow> enrich_node cy cm comm n = Inl TypeError"
  by (simp add: enrich_node_def)

lemma enrich_Inr:
  assumes "enrichGraphWithMetrics cy rnd graph = Inr g'"
  shows "edges g' = processEdgeMetrics (edges graph)"
    and "meta g' = enriched_meta graph rnd
           (fst (calculateTriadicBalance (graph\<lparr>edges := processEdgeMetrics (edges graph)\<rparr>)))"
    and "map_nodes (enrich_node cy (calculateClusteringCoefficient (nodes graph) (edges graph))
           (detectCommunities graph)) (nodes graph) = Inr (nodes g')"
  using assms by (auto simp: enrichGraphWithMetrics_def Let_def split: sum.splits)

lemma enrich_Inl:
  assumes "dcn_degree cy = None" and "n \<in> set (nodes graph)" and "cy_has cy (nid n)"
  shows "enrichGraphWithMetrics cy rnd graph = Inl TypeError"
proof -
  have "map_nodes (enrich_node cy (calculateClusteringCoefficient (nodes graph) (edges graph))
           (detectCommunities graph)) (nodes graph) = Inl TypeError"
    using assms(2) enrich_node_Inl [OF assms(3) assms(1)] by (rule map_nodes_Inl)
  then show ?thesis by (simp add: enrichGraphWithMetrics_def Let_def)
qed

lemma enrich_Inr_nodes:
  assumes "enrichGraphWithMetrics cy rnd graph = Inr g'"
  shows "length (nodes g') = length (nodes graph)"
    and "i < length (nodes graph) \<Longrightarrow>
          enrich_node cy (calculateClusteringCoefficient (nodes graph) (edges graph))
            (detectCommunities graph) (nodes graph ! i) = Inr (nodes g' ! i)"
  using map_nodes_Inr [OF enrich_Inr(3) [OF assms]] by simp_all

lemma node_ids_enrich:
  assumes "enrichGraphWithMetrics cy rnd graph = Inr g'"
  shows "map nid (nodes g') = map nid (nodes graph)"
proof (rule nth_equalityI)
  show "length (map nid (nodes g')) = length (map nid (nodes graph))"
    using enrich_Inr_nodes(1) [OF assms] by simp
next
  fix i assume "i < length (map nid (nodes g'))"
  then have i: "i < length (nodes graph)" using enrich_Inr_nodes(1) [OF assms] by simp
  have "nid (nodes g' ! i) = nid (nodes graph ! i)"
    using enrich_node_Inr [OF enrich_Inr_nodes(2) [OF assms i]] by simp
  then show "map nid (nodes g') ! i = map nid (nodes graph) ! i"
    using i enrich_Inr_nodes(1) [OF assms] by simp
qed

lemma enrich_unknown:
  assumes "\<And>n. n \<in> set (nodes graph) \<Longrightarrow> \<not> cy_has cy (nid n)"
  shows "enrichGraphWithMetrics cy rnd graph =
      Inr \<lparr>nodes = nodes graph, edges = processEdgeMetrics (edges graph),
           meta = enriched_meta graph rnd
             (fst (calculateTriadicBalance (graph\<lparr>edges := processEdgeMetrics (edges graph)\<rparr>)))\<rparr>"
proof -
  have "map_nodes (enrich_node cy (calculateClusteringCoefficient (nodes graph) (edges graph))
           (detectCommunities graph)) (nodes graph) = Inr (map (\<lambda>n. n) (nodes graph))"
    by (rule map_nodes_all_Inr) (simp add: enrich_node_def assms)
  then show ?thesis by (simp add: enrichGraphWithMetrics_def Let_def)
qed

lemma enrich_directed_Inr:
  assumes "dcn_degree cy = None" and "enrichGraphWithMetrics cy rnd graph = Inr g'"
  shows "nodes g' = nodes graph"
proof (rule nth_equalityI)
  show "length (nodes g') = length (nodes graph)" by (rule enrich_Inr_nodes(1) [OF assms(2)])
next
  fix i assume "i < length (nodes g')"
  then have i: "i < length (nodes graph)" using enrich_Inr_nodes(1) [OF assms(2)] by simp
  show "nodes g' ! i = nodes graph ! i"
    using enrich_Inr_nodes(2) [OF assms(2) i] assms(1)
    by (simp add: enrich_node_def split: if_splits)
qed

section \<open>The keyword heuristic\<close>

lemma includes_str_iff: "includes_str s kw \<longleftrightarrow> (\<exists>pre post. s = pre @ kw @ post)"
proof (induction s)
  case Nil
  show ?case by auto
next
  case (Cons c cs)
  show ?case
  proof
    assume "includes_str (c # cs) kw"
    then consider "take (length kw) (c # cs) = kw" | "includes_str cs kw" by auto
    then show "\<exists>pre post. c # cs = pre @ kw @ post"
    proof cases
      case 1
      have "c # cs = [] @ take (length kw) (c # cs) @ drop (length kw) (c # cs)"
        by (simp only: append_Nil append_take_drop_id)
      then have "c # cs = [] @ kw @ drop (length kw) (c # cs)" using 1 by simp
      then show ?thesis by blast
    next
      case 2
      then obtain pre post where "cs = pre @ kw @ post" using Cons.IH by blast
      then have "c # cs = (c # pre) @ kw @ post" by simp
      then show ?thesis by blast
    qed
  next
    assume "\<exists>pre post. c # cs = pre @ kw @ post"
    then obtain pre post where eq: "c # cs = pre @ kw @ post" by blast
    show "includes_str (c # cs) kw"
    proof (cases pre)
      case Nil
      then have "take (length kw) (c # cs) = kw" using eq by simp
      then show ?thesis by simp
    next
      case (Cons p ps)
      then have "cs = ps @ kw @ post" using eq by simp
      then have "includes_str cs kw" using Cons.IH by blast
      then show ?thesis by simp
    qed
  qed
qed

lemma keyword_test:
  "(\<exists>kw\<in>set [''conflict'', ''rival'', ''anti'', ''against'', ''enemy'',
                ''opponent'', ''fight'', ''konflikt'', ''rywal'', ''przeciw'', ''wro''].
       \<exists>pre post. s = pre @ kw @ post)
   \<longleftrightarrow> list_ex (includes_str s) negativeKeywords"
  unfolding negativeKeywords_def list_ex_iff includes_str_iff ..
section \<open>The empty graph and the graph of one node\<close>

lemma index_triples_0 [simp]: "index_triples 0 = []"
  by (simp add: index_triples_def)

lemma enrich_legacy_empty:
  "enrichGraphWithMetrics_legacy rnd \<lparr>nodes = [], edges = [], meta = m\<rparr> =
     \<lparr>nodes = [], edges = [], meta = enriched_meta \<lparr>nodes = [], edges = [], meta = m\<rparr> rnd 1\<rparr>"
  by (simp add: enrichGraphWithMetrics_legacy_def Let_def processEdgeMetrics_def
      calculateTriadicBalance_legacy_def balance_of_def)

lemma enrich_empty:
  "enrichGraphWithMetrics cy rnd \<lparr>nodes = [], edges = [], meta = m\<rparr> =
     Inr \<lparr>nodes = [], edges = [], meta = enriched_meta \<lparr>nodes = [], edges = [], meta = m\<rparr> rnd 1\<rparr>"
  by (simp add: enrichGraphWithMetrics_def Let_def processEdgeMetrics_def
      calculateTriadicBalance_def balance_of_def)

lemma globalBalance_enriched_meta:
  "Option.bind (enriched_meta graph rnd b) globalBalance = Some b"
  by (simp add: enriched_meta_def)






section \<open>The Levenshtein matrix\<close>

lemma first_row:
  assumes "m0 \<noteq> []" and "m0 ! 0 = [0]"
  shows "fold (\<lambda>j matrix. matrix_set matrix 0 j j) [0..<Suc n] m0 = m0[0 := [0..<Suc n]]"
proof (induction n)
  case 0
  show ?case using assms by (simp add: matrix_set_def list_update_same_conv)
next
  case (Suc n)
  have "fold (\<lambda>j matrix. matrix_set matrix 0 j j) [0..<Suc (Suc n)] m0
        = matrix_set (m0[0 := [0..<Suc n]]) 0 (Suc n) (Suc n)"
    using Suc.IH by (simp del: upt_Suc add: upt_Suc_append [of 0 "Suc n"])
  also have "\<dots> = m0[0 := [0..<Suc (Suc n)]]"
    using assms(1) by (simp add: matrix_set_def)
  finally show ?case .
qed

lemma lev_row:
  assumes i: "i = Suc i'" and len: "i < length m"
    and prev: "m ! i' = map (lev_rec a b i') [0..<la + 1]"
    and cur: "m ! i = [i]"
  shows "j \<le> la \<Longrightarrow>
    fold (lev_cell a b i) [1..<j + 1] m = m[i := map (lev_rec a b i) [0..<j + 1]]"
proof (induction j)
  case 0
  have "map (lev_rec a b i) [0..<0 + 1] = m ! i" using cur i by simp
  then have "m[i := map (lev_rec a b i) [0..<0 + 1]] = m" by (simp only: list_update_id)
  then show ?case by simp
next
  case (Suc j)
  define row where "row = map (lev_rec a b i) [0..<j + 1]"
  define mj where "mj = m[i := row]"
  have IH: "fold (lev_cell a b i) [1..<j + 1] m = mj"
    using Suc by (simp add: mj_def row_def)
  have lrow: "length row = j + 1" by (simp add: row_def)
  have mji: "mj ! i = row" using len by (simp add: mj_def)
  have mjp: "mj ! i' = map (lev_rec a b i') [0..<la + 1]"
    using i prev by (simp add: mj_def)
  have r1: "mj ! i' ! j = lev_rec a b i' j"
    using Suc.prems mjp by (simp del: upt_Suc)
  have r2: "row ! j = lev_rec a b i j"
    unfolding row_def by (simp del: upt_Suc)
  have r3: "mj ! i' ! Suc j = lev_rec a b i' (Suc j)"
    using Suc.prems mjp by (simp del: upt_Suc)
  have cell: "lev_cell a b i (Suc j) mj = mj[i := row @ [lev_rec a b i (Suc j)]]"
    using mji by (simp add: lev_cell_def matrix_set_def i r1 r2 r3 lrow)
  have split: "[1..<Suc j + 1] = [1..<j + 1] @ [Suc j]" by simp
  have "fold (lev_cell a b i) [1..<Suc j + 1] m = lev_cell a b i (Suc j) mj"
    unfolding split fold_append comp_def IH by simp
  also have "\<dots> = m[i := row @ [lev_rec a b i (Suc j)]]"
    unfolding cell by (simp add: mj_def)
  also have "row @ [lev_rec a b i (Suc j)] = map (lev_rec a b i) [0..<Suc j + 1]"
    by (simp add: row_def)
  finally show ?case .
qed

lemma lev_rows:
  assumes "lev_inv a b la lb 0 m0"
  shows "i \<le> lb \<Longrightarrow>
    lev_inv a b la lb i (fold (\<lambda>i matrix. fold (lev_cell a b i) [1..<la + 1] matrix) [1..<i + 1] m0)"
proof (induction i)
  case 0
  show ?case using assms by simp
next
  case (Suc i)
  define m where "m = fold (\<lambda>i matrix. fold (lev_cell a b i) [1..<la + 1] matrix) [1..<i + 1] m0"
  have inv: "lev_inv a b la lb i m" using Suc by (simp add: m_def)
  have len: "Suc i < length m" using inv Suc.prems by (simp add: lev_inv_def)
  have prev: "m ! i = map (lev_rec a b i) [0..<la + 1]" using inv by (simp add: lev_inv_def)
  have cur: "m ! Suc i = [Suc i]" using inv Suc.prems by (simp add: lev_inv_def)
  have row: "fold (lev_cell a b (Suc i)) [1..<la + 1] m = m[Suc i := map (lev_rec a b (Suc i)) [0..<la + 1]]"
    using lev_row [OF refl len prev cur, of la] by simp
  have split: "[1..<Suc i + 1] = [1..<i + 1] @ [Suc i]" by simp
  have "fold (\<lambda>i matrix. fold (lev_cell a b i) [1..<la + 1] matrix) [1..<Suc i + 1] m0
        = m[Suc i := map (lev_rec a b (Suc i)) [0..<la + 1]]"
    unfolding split fold_append comp_def m_def [symmetric] fold_simps using row by simp
  moreover have "lev_inv a b la lb (Suc i) (m[Suc i := map (lev_rec a b (Suc i)) [0..<la + 1]])"
    using inv len unfolding lev_inv_def
    by (auto simp del: upt_Suc simp: nth_list_update le_Suc_eq)
  ultimately show ?case by simp
qed

lemma getLevenshteinDistance_rec:
  "getLevenshteinDistance a b = lev_rec a b (length b) (length a)"
proof -
  define m0 where "m0 = map (\<lambda>i. [i]) [0..<length b + 1]"
  define m1 where "m1 = fold (\<lambda>j matrix. matrix_set matrix 0 j j) [0..<length a + 1] m0"
  have m0: "m0 \<noteq> []" "m0 ! 0 = [0]" by (simp_all add: m0_def upt_rec [of 0])
  have m1: "m1 = m0[0 := [0..<length a + 1]]"
    using first_row [OF m0, of "length a"] by (simp add: m1_def)
  have map0: "map (lev_rec a b 0) xs = xs" for xs by (induction xs) simp_all
  have inv0: "lev_inv a b (length a) (length b) 0 m1"
    unfolding lev_inv_def m1
    by (auto simp del: upt_Suc simp: m0_def nth_list_update map0)
  have "lev_inv a b (length a) (length b) (length b)
          (fold (\<lambda>i matrix. fold (lev_cell a b i) [1..<length a + 1] matrix) [1..<length b + 1] m1)"
    using lev_rows [OF inv0, of "length b"] by simp
  then have "fold (\<lambda>i matrix. fold (lev_cell a b i) [1..<length a + 1] matrix) [1..<length b + 1] m1
      ! length b ! length a = lev_rec a b (length b) (length a)"
    by (simp del: upt_Suc add: lev_inv_def)
  then show ?thesis
    by (simp del: upt_Suc add: getLevenshteinDistance_def Let_def m1_def m0_def)
qed

lemma lev_rec_same: "lev_rec a a n n = 0"
  by (induction n) simp_all

lemma getLevenshteinDistance_same: "getLevenshteinDistance a a = 0"
  by (simp add: getLevenshteinDistance_rec lev_rec_same)

section \<open>Merging two nodes\<close>

lemma src_rename [simp]:
  "src (rename_endpoints keepId dropId e) = (if src e = dropId then keepId else src e)"
  by (simp add: rename_endpoints_def Let_def)

lemma tgt_rename [simp]:
  "tgt (rename_endpoints keepId dropId e) = (if tgt e = dropId then keepId else tgt e)"
  by (simp add: rename_endpoints_def Let_def)

lemma ends_processEdgeMetrics:
  "map (\<lambda>e. (src e, tgt e)) (processEdgeMetrics es) = map (\<lambda>e. (src e, tgt e)) es"
  by (simp add: processEdgeMetrics_def)

lemma nodes_mergeNodes_legacy:
  "map node_core (nodes (mergeNodes_legacy rnd keepId dropId graph)) =
     map node_core (filter (\<lambda>n. nid n \<noteq> dropId) (nodes graph))"
  by (simp add: mergeNodes_legacy_def Let_def nodes_enrich_legacy node_core_def comp_def)

lemma ids_mergeNodes_legacy:
  "map nid (nodes (mergeNodes_legacy rnd keepId dropId graph)) =
     map nid (filter (\<lambda>n. nid n \<noteq> dropId) (nodes graph))"
  by (simp add: mergeNodes_legacy_def Let_def)

lemma ends_mergeNodes_legacy:
  "map (\<lambda>e. (src e, tgt e)) (edges (mergeNodes_legacy rnd keepId dropId graph)) =
     filter (\<lambda>(s, t). s \<noteq> t)
       (map (\<lambda>e. (if src e = dropId then keepId else src e, if tgt e = dropId then keepId else tgt e))
          (edges graph))"
  by (simp add: mergeNodes_legacy_def Let_def ends_processEdgeMetrics filter_map comp_def)

lemma mergeNodes_Inl:
  assumes "dcn_degree cy = None" and "n \<in> set (nodes graph)" and "nid n \<noteq> dropId"
    and "cy_has cy (nid n)"
  shows "mergeNodes cy rnd keepId dropId graph = Inl TypeError"
  unfolding mergeNodes_def Let_def
  by (rule enrich_Inl [OF assms(1) _ assms(4)]) (simp add: assms(2,3))
section \<open>Lexical duplicate detection\<close>

lemma set_index_pairs: "set (index_pairs n) = {(i, j). i < j \<and> j < n}"
proof -
  have "set (index_pairs n) = (\<Union>i\<in>{0..<n}. Pair i ` {i + 1..<n})"
    unfolding index_pairs_def by (simp del: upt_Suc)
  also have "\<dots> = {(i, j). i < j \<and> j < n}"
  proof (rule set_eqI)
    fix p :: "nat \<times> nat"
    obtain a b where p: "p = (a, b)" by (cases p) auto
    show "p \<in> (\<Union>i\<in>{0..<n}. Pair i ` {i + 1..<n}) \<longleftrightarrow> p \<in> {(i, j). i < j \<and> j < n}"
      unfolding p by (simp add: image_iff) linarith
  qed
  finally show ?thesis .
qed


lemma length_toLowerCase [simp]: "length (toLowerCase s) = length s"
  by (simp add: toLowerCase_def)

lemma lexicalSimilarity_same: "l \<noteq> [] \<Longrightarrow> lexicalSimilarity l l = 1"
  by (simp add: lexicalSimilarity_def getLevenshteinDistance_same)

lemma lexicalSimilarity_empty: "lexicalSimilarity [] [] = 0"
  by (simp add: lexicalSimilarity_def)

lemma duplicate_step_eq:
  "duplicate_step ns t (i, j) acc = (if emits ns t i j then acc @ [candidate ns i j] else acc)"
  by (simp add: duplicate_step_def Let_def emits_def candidate_def)

lemma set_fold_duplicate_step:
  "set (fold (duplicate_step ns t) ps acc) =
     set acc \<union> {candidate ns i j | i j. (i, j) \<in> set ps \<and> emits ns t i j}"
proof (induction ps arbitrary: acc)
  case Nil
  show ?case by simp
next
  case (Cons p ps)
  obtain i j where p: "p = (i, j)" by (cases p) auto
  have "set (fold (duplicate_step ns t) (p # ps) acc) =
        set (duplicate_step ns t (i, j) acc) \<union> {candidate ns i j | i j. (i, j) \<in> set ps \<and> emits ns t i j}"
    by (simp add: Cons.IH p)
  also have "\<dots> = set acc \<union> {candidate ns i' j' | i' j'. (i', j') \<in> set (p # ps) \<and> emits ns t i' j'}"
    unfolding duplicate_step_eq p by auto
  finally show ?case .
qed

lemma set_detectDuplicates:
  "set (detectDuplicates graph t) =
     {candidate (nodes graph) i j | i j. i < j \<and> j < length (nodes graph) \<and> emits (nodes graph) t i j}"
  by (simp add: detectDuplicates_def set_fold_duplicate_step set_index_pairs)


lemma identical_labels_emitted:
  assumes "i < j" and "j < length (nodes graph)"
    and "node_type (node_data (nodes graph ! i)) = node_type (node_data (nodes graph ! j))"
    and "node_label (node_data (nodes graph ! i)) = node_label (node_data (nodes graph ! j))"
    and "node_label (node_data (nodes graph ! i)) \<noteq> []"
    and "t \<le> 1"
  shows "\<lparr>nodeA = node_data (nodes graph ! i), nodeB = node_data (nodes graph ! j), similarity = 1\<rparr>
           \<in> set (detectDuplicates graph t)"
proof -
  have sim: "lexicalSimilarity (node_label (node_data (nodes graph ! i)))
          (node_label (node_data (nodes graph ! j))) = 1"
    using assms(4,5) by (simp add: lexicalSimilarity_same)
  have em: "emits (nodes graph) t i j"
    using assms(3,6) sim by (simp add: emits_def)
  have "candidate (nodes graph) i j \<in> set (detectDuplicates graph t)"
    unfolding set_detectDuplicates using assms(1,2) em by blast
  then show ?thesis by (simp add: candidate_def sim)
qed

lemma candidates_same_type:
  assumes "c \<in> set (detectDuplicates graph t)"
  shows "\<exists>i j. i < j \<and> j < length (nodes graph)
           \<and> nodeA c = node_data (nodes graph ! i) \<and> nodeB c = node_data (nodes graph ! j)
           \<and> node_type (nodeA c) = node_type (nodeB c)"
proof -
  obtain i j where "c = candidate (nodes graph) i j" and "i < j" and "j < length (nodes graph)"
    and "emits (nodes graph) t i j"
    using assms unfolding set_detectDuplicates by blast
  then show ?thesis by (auto simp: candidate_def emits_def)
qed

section \<open>Triadic balance\<close>

lemma edge_sign_snoc:
  "edge_sign (es @ [e]) u v = (if connects e u v then Some (edge_val e) else edge_sign es u v)"
  by (cases "filter (\<lambda>e. connects e u v) es") (simp_all add: edge_sign_def)

lemma edge_sign_Nil [simp]: "edge_sign [] u v = None"
  by (simp add: edge_sign_def)

lemma adj_get_init [simp]: "adj_get (adj_init k adj) u v = adj_get adj u v"
  by (auto simp: adj_get_def adj_init_def update_conv' split: option.splits)

lemma map_of_init_same [simp]: "map_of (adj_init k adj) k \<noteq> None"
  by (auto simp: adj_init_def update_conv' split: option.splits)

lemma map_of_init_keep: "map_of adj k \<noteq> None \<Longrightarrow> map_of (adj_init k' adj) k \<noteq> None"
  by (auto simp: adj_init_def update_conv' split: option.splits)

lemma map_of_set_keep: "map_of adj k \<noteq> None \<Longrightarrow> map_of (adj_set u v val adj) k \<noteq> None"
  by (auto simp: adj_set_def map_of_map_entry split: option.splits)

lemma adj_get_set:
  "map_of adj u' \<noteq> None \<Longrightarrow>
     adj_get (adj_set u' v' val adj) u v = (if u = u' \<and> v = v' then Some val else adj_get adj u v)"
  by (auto simp: adj_get_def adj_set_def map_of_map_entry update_conv' split: option.splits)

lemma if_connects:
  "(if u = t \<and> v = s then Some x else if u = s \<and> v = t then Some x else y) =
   (if (s = u \<and> t = v) \<or> (s = v \<and> t = u) then Some x else y)"
proof (cases "u = t \<and> v = s")
  case True
  then have d: "(s = u \<and> t = v) \<or> (s = v \<and> t = u)" by blast
  show ?thesis unfolding if_P [OF True] if_P [OF d] ..
next
  case F1: False
  show ?thesis
  proof (cases "u = s \<and> v = t")
    case True
    then have d: "(s = u \<and> t = v) \<or> (s = v \<and> t = u)" by blast
    show ?thesis unfolding if_not_P [OF F1] if_P [OF True] if_P [OF d] ..
  next
    case False
    with F1 have d: "\<not> ((s = u \<and> t = v) \<or> (s = v \<and> t = u))" by blast
    show ?thesis unfolding if_not_P [OF F1] if_not_P [OF False] if_not_P [OF d] ..
  qed
qed

lemma adj_get_add_signed_edge:
  "adj_get (add_signed_edge e adj) u v = (if connects e u v then Some (edge_val e) else adj_get adj u v)"
proof -
  define adj2 where "adj2 = adj_init (tgt e) (adj_init (src e) adj)"
  have s: "map_of adj2 (src e) \<noteq> None" unfolding adj2_def by (rule map_of_init_keep) simp
  have t: "map_of adj2 (tgt e) \<noteq> None" unfolding adj2_def by simp
  have t3: "map_of (adj_set (src e) (tgt e) (edge_val e) adj2) (tgt e) \<noteq> None"
    using t by (rule map_of_set_keep)
  have g2: "adj_get adj2 u v = adj_get adj u v" by (simp add: adj2_def)
  have "add_signed_edge e adj =
          adj_set (tgt e) (src e) (edge_val e) (adj_set (src e) (tgt e) (edge_val e) adj2)"
    by (simp add: add_signed_edge_def Let_def adj2_def edge_val_def)
  then have "adj_get (add_signed_edge e adj) u v =
      (if u = tgt e \<and> v = src e then Some (edge_val e)
       else if u = src e \<and> v = tgt e then Some (edge_val e) else adj_get adj u v)"
    by (simp only: adj_get_set [OF t3] adj_get_set [OF s] g2)
  also have "\<dots> = (if connects e u v then Some (edge_val e) else adj_get adj u v)"
    unfolding connects_def by (rule if_connects)
  finally show ?thesis .
qed

lemma adj_get_build: "adj_get (build_sign_adj es) u v = edge_sign es u v"
proof (induction es rule: rev_induct)
  case Nil
  show ?case by (simp add: build_sign_adj_def adj_get_def)
next
  case (snoc e es)
  then show ?case
    by (simp add: build_sign_adj_def adj_get_add_signed_edge edge_sign_snoc)
qed

lemma fold_triangle_step:
  "fold (triangle_step adj ids) ts (tot, bal) =
     (tot + length (filter (\<lambda>(i, j, k). is_triangle adj (ids ! i) (ids ! j) (ids ! k)) ts),
      bal + length (filter (\<lambda>(i, j, k). is_triangle adj (ids ! i) (ids ! j) (ids ! k)
                                      \<and> sign_product adj (ids ! i) (ids ! j) (ids ! k) > 0) ts))"
proof (induction ts arbitrary: tot bal)
  case Nil
  show ?case by simp
next
  case (Cons t ts)
  obtain i j k where t: "t = (i, j, k)" by (cases t) auto
  have step: "triangle_step adj ids (i, j, k) (tot, bal) =
      (if is_triangle adj (ids ! i) (ids ! j) (ids ! k)
       then (tot + 1, if sign_product adj (ids ! i) (ids ! j) (ids ! k) > 0 then bal + 1 else bal)
       else (tot, bal))"
    by (simp add: triangle_step_def Let_def)
  show ?case
    by (simp add: t step Cons.IH)
qed

lemma distinct_concat_map_key:
  assumes "distinct xs"
    and "\<And>x. x \<in> set xs \<Longrightarrow> distinct (f x)"
    and "\<And>x y. x \<in> set xs \<Longrightarrow> y \<in> set (f x) \<Longrightarrow> g y = x"
  shows "distinct (concat (map f xs))"
  using assms
proof (induction xs)
  case Nil
  show ?case by simp
next
  case (Cons x xs)
  have "set (f x) \<inter> (\<Union>x'\<in>set xs. set (f x')) = {}"
  proof (rule ccontr)
    assume "set (f x) \<inter> (\<Union>x'\<in>set xs. set (f x')) \<noteq> {}"
    then obtain y x' where "y \<in> set (f x)" and "x' \<in> set xs" and "y \<in> set (f x')" by blast
    then have "g y = x" and "g y = x'" using Cons.prems(3) by simp_all
    then show False using Cons.prems(1) \<open>x' \<in> set xs\<close> by simp
  qed
  moreover have "distinct (concat (map f xs))"
    using Cons.prems by (intro Cons.IH) simp_all
  moreover have "distinct (f x)" using Cons.prems(2) by simp
  ultimately show ?case by simp
qed

lemma distinct_index_triples: "distinct (index_triples n)"
  unfolding index_triples_def
proof (rule distinct_concat_map_key [where g = fst])
  show "distinct [0..<n]" by simp
next
  fix i assume "i \<in> set [0..<n]"
  show "distinct (concat (map (\<lambda>j. map (\<lambda>k. (i, j, k)) [j + 1..<n]) [i + 1..<n]))"
  proof (rule distinct_concat_map_key [where g = "\<lambda>t. fst (snd t)"])
    show "distinct [i + 1..<n]" by simp
  next
    fix j assume "j \<in> set [i + 1..<n]"
    show "distinct (map (\<lambda>k. (i, j, k)) [j + 1..<n])"
      by (simp add: distinct_map inj_on_def)
  next
    fix j y assume "j \<in> set [i + 1..<n]" and "y \<in> set (map (\<lambda>k. (i, j, k)) [j + 1..<n])"
    then show "fst (snd y) = j" by auto
  qed
next
  fix i y
  assume "i \<in> set [0..<n]"
    and "y \<in> set (concat (map (\<lambda>j. map (\<lambda>k. (i, j, k)) [j + 1..<n]) [i + 1..<n]))"
  then show "fst y = i" by auto
qed

lemma set_index_triples: "set (index_triples n) = {(i, j, k). i < j \<and> j < k \<and> k < n}"
proof (rule set_eqI)
  fix t :: "nat \<times> nat \<times> nat"
  obtain a b c where t: "t = (a, b, c)" by (cases t) auto
  have "t \<in> set (index_triples n) \<longleftrightarrow>
        (\<exists>i\<in>{0..<n}. \<exists>j\<in>{i + 1..<n}. \<exists>k\<in>{j + 1..<n}. t = (i, j, k))"
    unfolding index_triples_def by (simp del: upt_Suc add: image_iff)
  also have "\<dots> \<longleftrightarrow> a < b \<and> b < c \<and> c < n"
  proof
    assume "\<exists>i\<in>{0..<n}. \<exists>j\<in>{i + 1..<n}. \<exists>k\<in>{j + 1..<n}. t = (i, j, k)"
    then obtain i j k where "i < n" "i + 1 \<le> j" "j < n" "j + 1 \<le> k" "k < n" "t = (i, j, k)"
      by auto
    then show "a < b \<and> b < c \<and> c < n" using t by auto
  next
    assume h: "a < b \<and> b < c \<and> c < n"
    then have "a \<in> {0..<n}" "b \<in> {a + 1..<n}" "c \<in> {b + 1..<n}" by auto
    then show "\<exists>i\<in>{0..<n}. \<exists>j\<in>{i + 1..<n}. \<exists>k\<in>{j + 1..<n}. t = (i, j, k)"
      using t by blast
  qed
  finally show "t \<in> set (index_triples n) \<longleftrightarrow> t \<in> {(i, j, k). i < j \<and> j < k \<and> k < n}"
    by (simp add: t)
qed

lemma edge_sign_nonzero: "edge_sign es u v = Some x \<Longrightarrow> x \<noteq> 0"
  by (auto simp: edge_sign_def edge_val_def split: list.splits if_splits)

lemma truthy_build: "truthy (adj_get (build_sign_adj es) u v) \<longleftrightarrow> edge_sign es u v \<noteq> None"
  by (auto simp: truthy_def adj_get_build dest: edge_sign_nonzero split: option.splits)

lemma is_triangle_build:
  "is_triangle (build_sign_adj es) u v w \<longleftrightarrow>
     edge_sign es u v \<noteq> None \<and> edge_sign es v w \<noteq> None \<and> edge_sign es w u \<noteq> None"
  by (simp add: is_triangle_def truthy_build)

lemma sign_product_build:
  "is_triangle (build_sign_adj es) u v w \<Longrightarrow>
     sign_product (build_sign_adj es) u v w = sign_of es u v * sign_of es v w * sign_of es w u"
  by (auto simp: is_triangle_build sign_product_def sign_of_def adj_get_build)

lemma finite_triangles: "finite (triangles graph limit)"
proof (rule finite_subset)
  show "triangles graph limit \<subseteq> set (index_triples limit)"
    by (auto simp: triangles_def set_index_triples)
qed simp

lemma count_triangles:
  "fold (triangle_step (build_sign_adj (edges graph)) (map nid (nodes graph))) (index_triples limit) (0, 0)
     = (card (triangles graph limit), card (balanced_triangles graph limit))"
proof -
  let ?adj = "build_sign_adj (edges graph)" and ?ids = "map nid (nodes graph)"
  have T: "{t. (\<lambda>(i, j, k). is_triangle ?adj (?ids ! i) (?ids ! j) (?ids ! k)) t} \<inter> set (index_triples limit)
        = triangles graph limit"
    by (auto simp: triangles_def set_index_triples is_triangle_build)
  have B: "{t. (\<lambda>(i, j, k). is_triangle ?adj (?ids ! i) (?ids ! j) (?ids ! k)
                  \<and> sign_product ?adj (?ids ! i) (?ids ! j) (?ids ! k) > 0) t} \<inter> set (index_triples limit)
        = balanced_triangles graph limit"
  proof (rule set_eqI)
    fix t :: "nat \<times> nat \<times> nat"
    obtain i j k where t: "t = (i, j, k)" by (cases t) auto
    show "t \<in> {t. (\<lambda>(i, j, k). is_triangle ?adj (?ids ! i) (?ids ! j) (?ids ! k)
                  \<and> sign_product ?adj (?ids ! i) (?ids ! j) (?ids ! k) > 0) t} \<inter> set (index_triples limit)
          \<longleftrightarrow> t \<in> balanced_triangles graph limit"
    proof (cases "is_triangle ?adj (?ids ! i) (?ids ! j) (?ids ! k)")
      case True
      then show ?thesis
        using True unfolding t balanced_triangles_def triangles_def
        by (simp add: sign_product_build set_index_triples is_triangle_build) blast
    next
      case False
      then have "t \<notin> triangles graph limit"
        unfolding t triangles_def by (auto simp: is_triangle_build)
      then have "t \<notin> balanced_triangles graph limit"
        unfolding t balanced_triangles_def by simp
      moreover have "t \<notin> {t. (\<lambda>(i, j, k). is_triangle ?adj (?ids ! i) (?ids ! j) (?ids ! k)
                  \<and> sign_product ?adj (?ids ! i) (?ids ! j) (?ids ! k) > 0) t} \<inter> set (index_triples limit)"
        using False unfolding t by simp
      ultimately show ?thesis by simp
    qed
  qed
  show ?thesis
    unfolding fold_triangle_step
    by (simp only: distinct_length_filter [OF distinct_index_triples] T B) simp
qed

lemma balance_of_card:
  "balance_of (card (triangles graph limit), card (balanced_triangles graph limit)) =
     (if triangles graph limit = {} then 1
      else real (card (balanced_triangles graph limit)) / real (card (triangles graph limit)))"
  using finite_triangles [of graph limit] by (auto simp: balance_of_def card_gt_0_iff)

lemma calculateTriadicBalance_card:
  "fst (calculateTriadicBalance graph) =
     (if triangles graph (min (length (nodes graph)) 200) = {} then 1
      else real (card (balanced_triangles graph (min (length (nodes graph)) 200)))
           / real (card (triangles graph (min (length (nodes graph)) 200))))"
  unfolding calculateTriadicBalance_def Let_def fst_conv length_map count_triangles
  by (rule balance_of_card)

lemma calculateTriadicBalance_legacy_card:
  "fst (calculateTriadicBalance_legacy graph) =
     (if triangles graph (length (nodes graph)) = {} then 1
      else real (card (balanced_triangles graph (length (nodes graph))))
           / real (card (triangles graph (length (nodes graph)))))"
  unfolding calculateTriadicBalance_legacy_def Let_def fst_conv count_triangles
  by (rule balance_of_card)

subsection \<open>A triangle beyond the first 200 nodes\<close>

lemma length_filler [simp]: "length filler_nodes = 200"
  by (simp add: filler_nodes_def)

lemma length_capped [simp]: "length (nodes capped_graph) = 203"
  by (simp add: capped_graph_def triangle_graph_def)

lemma capped_id_filler:
  "i < 200 \<Longrightarrow> map nid (nodes capped_graph) ! i = replicate (Suc i) CHR ''n''"
  by (simp add: capped_graph_def nth_append filler_nodes_def plain_node_def del: replicate_Suc upt_Suc)

lemma capped_id_triangle:
  "map nid (nodes capped_graph) ! 200 = ''A''"
  "map nid (nodes capped_graph) ! 201 = ''B''"
  "map nid (nodes capped_graph) ! 202 = ''C''"
  by (simp_all add: capped_graph_def nth_append triangle_graph_def plain_node_def)

lemma capped_edge_sign_filler:
  "edge_sign (edges capped_graph) (replicate (Suc i) CHR ''n'') v = None"
  by (simp add: edge_sign_def capped_graph_def triangle_graph_def signed_edge_def connects_def)

lemma capped_edge_signs:
  "edge_sign (edges capped_graph) ''A'' ''B'' = Some (- 1)"
  "edge_sign (edges capped_graph) ''B'' ''C'' = Some 1"
  "edge_sign (edges capped_graph) ''C'' ''A'' = Some 1"
  by (simp_all add: edge_sign_def capped_graph_def triangle_graph_def signed_edge_def connects_def
      edge_val_def)

lemma capped_no_triangle_below:
  assumes "i < 200"
  shows "(i, j, k) \<notin> triangles capped_graph limit"
proof -
  have "edge_sign (edges capped_graph) (map nid (nodes capped_graph) ! i)
          (map nid (nodes capped_graph) ! j) = None"
    unfolding capped_id_filler [OF assms] by (rule capped_edge_sign_filler)
  then show ?thesis unfolding triangles_def by blast
qed

lemma capped_triangles_200: "triangles capped_graph 200 = {}"
proof -
  have "t \<notin> triangles capped_graph 200" for t
  proof -
    obtain i j k where t: "t = (i, j, k)" by (cases t) auto
    show ?thesis
    proof (cases "i < 200")
      case True
      then show ?thesis unfolding t by (rule capped_no_triangle_below)
    next
      case False
      then show ?thesis unfolding t by (simp add: triangles_def)
    qed
  qed
  then show ?thesis by blast
qed

lemma capped_triangles_all: "triangles capped_graph 203 = {(200, 201, 202)}"
proof -
  have in_T: "(200, 201, 202) \<in> triangles capped_graph 203"
    by (simp add: triangles_def capped_id_triangle capped_edge_signs)
  have "t = (200, 201, 202)" if "t \<in> triangles capped_graph 203" for t
  proof -
    obtain i j k where t: "t = (i, j, k)" by (cases t) auto
    have "\<not> i < 200" using that capped_no_triangle_below [of i j k 203] unfolding t by blast
    moreover have "i < j \<and> j < k \<and> k < 203" using that unfolding t triangles_def by simp
    ultimately show ?thesis unfolding t by simp
  qed
  with in_T show ?thesis by blast
qed

lemma capped_balanced_all: "balanced_triangles capped_graph 203 = {}"
proof -
  have "(200, 201, 202) \<notin> balanced_triangles capped_graph 203"
    by (simp add: balanced_triangles_def capped_id_triangle sign_of_def capped_edge_signs)
  moreover have "balanced_triangles capped_graph 203 \<subseteq> triangles capped_graph 203"
    by (auto simp: balanced_triangles_def)
  ultimately show ?thesis unfolding capped_triangles_all by blast
qed

lemma capped_balance: "fst (calculateTriadicBalance capped_graph) = 1"
  by (simp add: calculateTriadicBalance_card capped_triangles_200)

lemma capped_balance_legacy: "fst (calculateTriadicBalance_legacy capped_graph) = 0"
  by (simp add: calculateTriadicBalance_legacy_card capped_triangles_all capped_balanced_all)

section \<open>Claims\<close>

text \<open>
  C7 (as stated): \<open>cosineSimilarity\<close> has its result in the interval from 0 to 1 for
  every pair of vectors. Two opposite vectors refute it: the cosine of \<open>[1]\<close> and
  \<open>[-1]\<close> is \<open>-1\<close>, in exact arithmetic and in every arithmetic that is exact on 0, 1
  and -1.
\<close>

theorem C7_cosineSimilarity_negative:
  "\<not> (0 \<le> cosineSimilarity exact [1] [- 1] \<and> cosineSimilarity exact [1] [- 1] \<le> 1)"
  by (simp add: cosineSimilarity_unfold dot_one)

text \<open>
  C7 (amended): \<open>cosineSimilarity\<close> is a total function. In every arithmetic it is 0
  whenever either vector is empty, the lengths differ, or the sum of the squares of
  either vector is found to be 0, and otherwise it is the cosine as the arithmetic
  computes it: the dot product divided by the product of the square roots of the two
  sums of squares. In every arithmetic that is exact on 0, 1 and -1, as doubles are,
  \<open>cosineSimilarity [1,0] [1,0] = 1\<close>, \<open>cosineSimilarity [1,0] [0,1] = 0\<close> and
  \<open>cosineSimilarity [1] [-1] = -1\<close>. In exact arithmetic the result lies between
  \<open>-1\<close> and 1 for every pair of vectors; the rounding of doubles is not covered by
  this bound.
\<close>

theorem C7_cosineSimilarity:
  "(a = [] \<or> b = [] \<or> length a \<noteq> length b
      \<or> ar_is_zero ar (dot ar a a) \<or> ar_is_zero ar (dot ar b b)
        \<longrightarrow> cosineSimilarity ar a b = ar_zero ar)
   \<and> (a \<noteq> [] \<and> length a = length b
      \<and> \<not> ar_is_zero ar (dot ar a a) \<and> \<not> ar_is_zero ar (dot ar b b)
        \<longrightarrow> cosineSimilarity ar a b
            = ar_div ar (dot ar a b) (ar_mul ar (ar_sqrt ar (dot ar a a)) (ar_sqrt ar (dot ar b b))))
   \<and> (exact_on_units ar one mone
        \<longrightarrow> cosineSimilarity ar [one, ar_zero ar] [one, ar_zero ar] = one
          \<and> cosineSimilarity ar [one, ar_zero ar] [ar_zero ar, one] = ar_zero ar
          \<and> cosineSimilarity ar [one] [mone] = mone)
   \<and> - 1 \<le> cosineSimilarity exact x y \<and> cosineSimilarity exact x y \<le> 1"
proof -
  have zero: "a = [] \<or> b = [] \<or> length a \<noteq> length b
      \<or> ar_is_zero ar (dot ar a a) \<or> ar_is_zero ar (dot ar b b)
        \<longrightarrow> cosineSimilarity ar a b = ar_zero ar"
    by (auto simp: cosineSimilarity_unfold)
  have cos: "a \<noteq> [] \<and> length a = length b
      \<and> \<not> ar_is_zero ar (dot ar a a) \<and> \<not> ar_is_zero ar (dot ar b b)
        \<longrightarrow> cosineSimilarity ar a b
            = ar_div ar (dot ar a b) (ar_mul ar (ar_sqrt ar (dot ar a a)) (ar_sqrt ar (dot ar b b)))"
    by (simp add: cosineSimilarity_unfold)
  have units: "exact_on_units ar one mone
        \<longrightarrow> cosineSimilarity ar [one, ar_zero ar] [one, ar_zero ar] = one
          \<and> cosineSimilarity ar [one, ar_zero ar] [ar_zero ar, one] = ar_zero ar
          \<and> cosineSimilarity ar [one] [mone] = mone"
    using cosineSimilarity_units [of ar one mone] by blast
  show ?thesis
    using cosineSimilarity_bounds [of x y] zero cos units by blast
qed

theorem C7_cosineSimilarity_witness:
  "cosineSimilarity exact [] [2] = 0
   \<and> [1, 1] \<noteq> ([] :: real list) \<and> length [1, 1 :: real] = length [1, 0 :: real]
   \<and> \<not> ar_is_zero exact (dot exact [1, 1] [1, 1]) \<and> \<not> ar_is_zero exact (dot exact [1, 0] [1, 0])
   \<and> cosineSimilarity exact [1, 1] [1, 0] = 1 / sqrt 2
   \<and> exact_on_units exact 1 (- 1)
   \<and> cosineSimilarity exact [1, 0] [1, 0] = 1
   \<and> cosineSimilarity exact [1, 0] [0, 1] = 0
   \<and> cosineSimilarity exact [1] [- 1] = - 1"
  using C7_cosineSimilarity [of "[]" "[2]" exact]
    C7_cosineSimilarity [of "[1, 1]" "[1, 0]" exact 1 "- 1"]
  by (simp add: dot_two exact_on_units_exact)




text \<open>
  C2: an edge whose source or target is not the id of a node is skipped by every
  analytics operation and never gives a real node an undefined or NaN score. The code
  does otherwise; the theorem evaluates it. With one node \<open>A\<close> and one edge from the
  unknown id \<open>X\<close> to \<open>A\<close>, \<open>calculatePageRank\<close> reads \<open>ranks[X]\<close>, which is undefined, and
  the rank of \<open>A\<close> is NaN, also after enrichment. With nodes \<open>A\<close>, \<open>B\<close> and edges
  \<open>A\<close> to \<open>X\<close> and \<open>X\<close> to \<open>B\<close>, \<open>detectCommunities\<close> walks through \<open>X\<close>, gives it a
  community, and joins \<open>A\<close> and \<open>B\<close>. With one node \<open>A\<close> and one edge from \<open>A\<close> to \<open>X\<close>,
  the edge raises the degree centrality of \<open>A\<close> from 0 to 1.
\<close>

theorem C2_dangling_edges_not_skipped:
  "calculatePageRank dangling_source_graph 20 0.85 = [(''A'', NaN)]
   \<and> pagerank (node_data (nodes (enrichGraphWithMetrics_legacy 0 dangling_source_graph) ! 0)) = Some NaN
   \<and> detectCommunities dangling_bridge_graph = [(''A'', 0), (''X'', 0), (''B'', 0)]
   \<and> calculateDegreeCentrality dangling_target_graph = [(''A'', Num 1)]
   \<and> calculateDegreeCentrality single_node_graph = [(''A'', Num 0)]"
  by code_simp

text \<open>
  C5: for every edge of a graph that already has a sign (or a certainty), the edge at
  the same position of the enriched graph has the same sign (or certainty). An edge
  without a sign receives \<open>negative\<close> when its label, in lower case, contains one of
  the eleven keywords as a contiguous run of characters, and \<open>positive\<close> otherwise (an
  edge without a label has the empty label); an edge without a certainty receives
  \<open>confirmed\<close>. The enrichment of the current file returns the same edges whenever it
  returns.
\<close>

theorem C5_sign_certainty_sticky:
  "length (edges (enrichGraphWithMetrics_legacy rnd graph)) = length (edges graph)
   \<and> (enrichGraphWithMetrics cy rnd graph = Inr g'
        \<longrightarrow> edges g' = edges (enrichGraphWithMetrics_legacy rnd graph))
   \<and> (i < length (edges graph) \<longrightarrow>
        (sign (edge_data (edges graph ! i)) \<noteq> None \<longrightarrow>
           sign (edge_data (edges (enrichGraphWithMetrics_legacy rnd graph) ! i))
             = sign (edge_data (edges graph ! i)))
      \<and> (certainty (edge_data (edges graph ! i)) \<noteq> None \<longrightarrow>
           certainty (edge_data (edges (enrichGraphWithMetrics_legacy rnd graph) ! i))
             = certainty (edge_data (edges graph ! i)))
      \<and> (sign (edge_data (edges graph ! i)) = None \<longrightarrow>
           sign (edge_data (edges (enrichGraphWithMetrics_legacy rnd graph) ! i))
             = Some (if \<exists>kw\<in>set [''conflict'', ''rival'', ''anti'', ''against'', ''enemy'',
                                   ''opponent'', ''fight'', ''konflikt'', ''rywal'', ''przeciw'', ''wro''].
                          \<exists>pre post.
                            toLowerCase (case edge_label (edge_data (edges graph ! i)) of
                                           None \<Rightarrow> [] | Some l \<Rightarrow> l) = pre @ kw @ post
                     then negative else positive))
      \<and> (certainty (edge_data (edges graph ! i)) = None \<longrightarrow>
           certainty (edge_data (edges (enrichGraphWithMetrics_legacy rnd graph) ! i)) = Some confirmed))"
proof -
  have same: "enrichGraphWithMetrics cy rnd graph = Inr g'
        \<longrightarrow> edges g' = edges (enrichGraphWithMetrics_legacy rnd graph)"
    using enrich_Inr(1) [of cy rnd graph g'] by simp
  have each: "(sign (edge_data (edges graph ! i)) \<noteq> None \<longrightarrow>
           sign (edge_data (edges (enrichGraphWithMetrics_legacy rnd graph) ! i))
             = sign (edge_data (edges graph ! i)))
      \<and> (certainty (edge_data (edges graph ! i)) \<noteq> None \<longrightarrow>
           certainty (edge_data (edges (enrichGraphWithMetrics_legacy rnd graph) ! i))
             = certainty (edge_data (edges graph ! i)))
      \<and> (sign (edge_data (edges graph ! i)) = None \<longrightarrow>
           sign (edge_data (edges (enrichGraphWithMetrics_legacy rnd graph) ! i))
             = Some (if \<exists>kw\<in>set [''conflict'', ''rival'', ''anti'', ''against'', ''enemy'',
                                   ''opponent'', ''fight'', ''konflikt'', ''rywal'', ''przeciw'', ''wro''].
                          \<exists>pre post.
                            toLowerCase (case edge_label (edge_data (edges graph ! i)) of
                                           None \<Rightarrow> [] | Some l \<Rightarrow> l) = pre @ kw @ post
                     then negative else positive))
      \<and> (certainty (edge_data (edges graph ! i)) = None \<longrightarrow>
           certainty (edge_data (edges (enrichGraphWithMetrics_legacy rnd graph) ! i)) = Some confirmed)"
    if i: "i < length (edges graph)"
    unfolding keyword_test
    using i by (auto simp: processEdgeMetrics_nth heuristicSign_def Let_def)
  show ?thesis using same each by simp
qed

theorem C5_sign_certainty_sticky_witness:
  "map_sum id edges (enrichGraphWithMetrics cy_directed 0 unnamed_node_graph)
     = Inr (edges (enrichGraphWithMetrics_legacy 0 unnamed_node_graph))
   \<and> map (\<lambda>e. (edge_label (edge_data e), sign (edge_data e), certainty (edge_data e)))
       (edges keyword_graph)
       = [(Some ''ally'', Some positive, Some disputed), (Some ''ally'', Some negative, Some alleged),
          (Some ''Rival of'', None, None), (Some ''ally'', None, None),
          (Some ''ANTI-league'', None, None), (Some ''wrogowie'', None, None), (None, None, None)]
   \<and> sign (edge_data (edges (enrichGraphWithMetrics_legacy 0 keyword_graph) ! 0)) = Some positive
   \<and> certainty (edge_data (edges (enrichGraphWithMetrics_legacy 0 keyword_graph) ! 0)) = Some disputed
   \<and> sign (edge_data (edges (enrichGraphWithMetrics_legacy 0 keyword_graph) ! 1)) = Some negative
   \<and> certainty (edge_data (edges (enrichGraphWithMetrics_legacy 0 keyword_graph) ! 1)) = Some alleged
   \<and> sign (edge_data (edges (enrichGraphWithMetrics_legacy 0 keyword_graph) ! 2)) = Some negative
   \<and> certainty (edge_data (edges (enrichGraphWithMetrics_legacy 0 keyword_graph) ! 2)) = Some confirmed
   \<and> sign (edge_data (edges (enrichGraphWithMetrics_legacy 0 keyword_graph) ! 3)) = Some positive
   \<and> sign (edge_data (edges (enrichGraphWithMetrics_legacy 0 keyword_graph) ! 4)) = Some negative
   \<and> sign (edge_data (edges (enrichGraphWithMetrics_legacy 0 keyword_graph) ! 5)) = Some negative
   \<and> sign (edge_data (edges (enrichGraphWithMetrics_legacy 0 keyword_graph) ! 6)) = Some positive"
proof -
  define G where "G = \<lparr>nodes = nodes unnamed_node_graph,
           edges = processEdgeMetrics (edges unnamed_node_graph),
           meta = enriched_meta unnamed_node_graph 0
             (fst (calculateTriadicBalance
                (unnamed_node_graph\<lparr>edges := processEdgeMetrics (edges unnamed_node_graph)\<rparr>)))\<rparr>"
  have r: "enrichGraphWithMetrics cy_directed 0 unnamed_node_graph = Inr G"
    unfolding G_def
    by (rule enrich_unknown) (simp add: unnamed_node_graph_def cy_directed_def plain_node_def)
  have cur: "map_sum id edges (enrichGraphWithMetrics cy_directed 0 unnamed_node_graph)
     = Inr (edges (enrichGraphWithMetrics_legacy 0 unnamed_node_graph))"
    using C5_sign_certainty_sticky [of 0 unnamed_node_graph cy_directed G 0] r
    by simp
  have k: "list_ex (includes_str (toLowerCase ''Rival of'')) negativeKeywords"
    "\<not> list_ex (includes_str (toLowerCase ''ally'')) negativeKeywords"
    "list_ex (includes_str (toLowerCase ''ANTI-league'')) negativeKeywords"
    "list_ex (includes_str (toLowerCase ''wrogowie'')) negativeKeywords"
    "\<not> list_ex (includes_str (toLowerCase [])) negativeKeywords"
    by code_simp+
  have inp: "map (\<lambda>e. (edge_label (edge_data e), sign (edge_data e), certainty (edge_data e)))
       (edges keyword_graph)
       = [(Some ''ally'', Some positive, Some disputed), (Some ''ally'', Some negative, Some alleged),
          (Some ''Rival of'', None, None), (Some ''ally'', None, None),
          (Some ''ANTI-league'', None, None), (Some ''wrogowie'', None, None), (None, None, None)]"
    by (simp add: keyword_graph_def signed_edge_def plain_edge_def unlabelled_edge_def)
  have e: "edges keyword_graph ! 0 = signed_edge ''A'' ''B'' positive disputed"
    "edges keyword_graph ! 1 = signed_edge ''B'' ''A'' negative alleged"
    "edges keyword_graph ! 2 = plain_edge ''B'' ''A'' ''Rival of''"
    "edges keyword_graph ! 3 = plain_edge ''A'' ''B'' ''ally''"
    "edges keyword_graph ! 4 = plain_edge ''A'' ''B'' ''ANTI-league''"
    "edges keyword_graph ! 5 = plain_edge ''B'' ''A'' ''wrogowie''"
    "edges keyword_graph ! 6 = unlabelled_edge ''A'' ''B''"
    "length (edges keyword_graph) = 7"
    by (simp_all add: keyword_graph_def)
  have out: "sign (edge_data (edges (enrichGraphWithMetrics_legacy 0 keyword_graph) ! 0)) = Some positive
   \<and> certainty (edge_data (edges (enrichGraphWithMetrics_legacy 0 keyword_graph) ! 0)) = Some disputed
   \<and> sign (edge_data (edges (enrichGraphWithMetrics_legacy 0 keyword_graph) ! 1)) = Some negative
   \<and> certainty (edge_data (edges (enrichGraphWithMetrics_legacy 0 keyword_graph) ! 1)) = Some alleged
   \<and> sign (edge_data (edges (enrichGraphWithMetrics_legacy 0 keyword_graph) ! 2)) = Some negative
   \<and> certainty (edge_data (edges (enrichGraphWithMetrics_legacy 0 keyword_graph) ! 2)) = Some confirmed
   \<and> sign (edge_data (edges (enrichGraphWithMetrics_legacy 0 keyword_graph) ! 3)) = Some positive
   \<and> sign (edge_data (edges (enrichGraphWithMetrics_legacy 0 keyword_graph) ! 4)) = Some negative
   \<and> sign (edge_data (edges (enrichGraphWithMetrics_legacy 0 keyword_graph) ! 5)) = Some negative
   \<and> sign (edge_data (edges (enrichGraphWithMetrics_legacy 0 keyword_graph) ! 6)) = Some positive"
    using C5_sign_certainty_sticky [of 0 keyword_graph cy_directed undefined 0]
      C5_sign_certainty_sticky [of 0 keyword_graph cy_directed undefined 1]
      C5_sign_certainty_sticky [of 0 keyword_graph cy_directed undefined 2]
      C5_sign_certainty_sticky [of 0 keyword_graph cy_directed undefined 3]
      C5_sign_certainty_sticky [of 0 keyword_graph cy_directed undefined 4]
      C5_sign_certainty_sticky [of 0 keyword_graph cy_directed undefined 5]
      C5_sign_certainty_sticky [of 0 keyword_graph cy_directed undefined 6]
    unfolding keyword_test e
    by (simp add: k signed_edge_def plain_edge_def unlabelled_edge_def)
  show ?thesis using cur inp out by blast
qed

text \<open>
  C8: for the empty graph, enrichment returns without an exception a graph with no
  nodes, no edges and \<open>meta.globalBalance = 1\<close>, in both versions of the engine, and
  each centrality function returns the empty mapping.
\<close>

theorem C8_empty_graph:
  "nodes (enrichGraphWithMetrics_legacy rnd \<lparr>nodes = [], edges = [], meta = m\<rparr>) = []
   \<and> edges (enrichGraphWithMetrics_legacy rnd \<lparr>nodes = [], edges = [], meta = m\<rparr>) = []
   \<and> Option.bind (meta (enrichGraphWithMetrics_legacy rnd \<lparr>nodes = [], edges = [], meta = m\<rparr>))
        globalBalance = Some 1
   \<and> map_sum id (\<lambda>g. (nodes g, edges g, Option.bind (meta g) globalBalance))
        (enrichGraphWithMetrics cy rnd \<lparr>nodes = [], edges = [], meta = m\<rparr>) = Inr ([], [], Some 1)
   \<and> calculateDegreeCentrality \<lparr>nodes = [], edges = [], meta = m\<rparr> = []
   \<and> calculatePageRank \<lparr>nodes = [], edges = [], meta = m\<rparr> iterations damping = []
   \<and> detectCommunities \<lparr>nodes = [], edges = [], meta = m\<rparr> = []
   \<and> calculateClusteringCoefficient [] [] = []"
  by (simp add: enrich_legacy_empty enrich_empty globalBalance_enriched_meta
      calculateDegreeCentrality_def calculatePageRank_def detectCommunities_def
      calculateClusteringCoefficient_def build_nbr_adj_def)

text \<open>
  C10: the node list of the enriched graph has the length and the order of the
  input's. At every position the node has the id, label, type, region, importance,
  year, description, dates, embedding, sources and certainty of the input node, and
  its position and selection flag; every edge keeps its id, source, target, label,
  dates, weight and balance flag. This holds for the enrichment of the older file,
  and for the enrichment of the current file whenever it returns a graph.
\<close>

theorem C10_enrichment_frame:
  "length (nodes (enrichGraphWithMetrics_legacy rnd graph)) = length (nodes graph)
   \<and> map nid (nodes (enrichGraphWithMetrics_legacy rnd graph)) = map nid (nodes graph)
   \<and> length (edges (enrichGraphWithMetrics_legacy rnd graph)) = length (edges graph)
   \<and> (enrichGraphWithMetrics cy rnd graph = Inr g'
        \<longrightarrow> length (nodes g') = length (nodes graph)
          \<and> map nid (nodes g') = map nid (nodes graph)
          \<and> length (edges g') = length (edges graph))
   \<and> (i < length (nodes graph)
        \<and> (enrichGraphWithMetrics cy rnd graph = Inr g' \<and> n' = nodes g' ! i
           \<or> n' = nodes (enrichGraphWithMetrics_legacy rnd graph) ! i)
      \<longrightarrow> position n' = position (nodes graph ! i)
        \<and> selected n' = selected (nodes graph ! i)
        \<and> node_id (node_data n') = node_id (node_data (nodes graph ! i))
        \<and> node_label (node_data n') = node_label (node_data (nodes graph ! i))
        \<and> node_type (node_data n') = node_type (node_data (nodes graph ! i))
        \<and> region (node_data n') = region (node_data (nodes graph ! i))
        \<and> importance (node_data n') = importance (node_data (nodes graph ! i))
        \<and> year (node_data n') = year (node_data (nodes graph ! i))
        \<and> description (node_data n') = description (node_data (nodes graph ! i))
        \<and> node_dates (node_data n') = node_dates (node_data (nodes graph ! i))
        \<and> embedding (node_data n') = embedding (node_data (nodes graph ! i))
        \<and> sources (node_data n') = sources (node_data (nodes graph ! i))
        \<and> node_certainty (node_data n') = node_certainty (node_data (nodes graph ! i)))
   \<and> (j < length (edges graph)
        \<and> (enrichGraphWithMetrics cy rnd graph = Inr g' \<and> e' = edges g' ! j
           \<or> e' = edges (enrichGraphWithMetrics_legacy rnd graph) ! j)
      \<longrightarrow> edge_id (edge_data e') = edge_id (edge_data (edges graph ! j))
        \<and> source (edge_data e') = source (edge_data (edges graph ! j))
        \<and> target (edge_data e') = target (edge_data (edges graph ! j))
        \<and> edge_label (edge_data e') = edge_label (edge_data (edges graph ! j))
        \<and> edge_dates (edge_data e') = edge_dates (edge_data (edges graph ! j))
        \<and> weight (edge_data e') = weight (edge_data (edges graph ! j))
        \<and> isBalanced (edge_data e') = isBalanced (edge_data (edges graph ! j)))"
proof -
  have nodes_part: "position n' = position (nodes graph ! i)
    \<and> selected n' = selected (nodes graph ! i)
    \<and> node_id (node_data n') = node_id (node_data (nodes graph ! i))
    \<and> node_label (node_data n') = node_label (node_data (nodes graph ! i))
    \<and> node_type (node_data n') = node_type (node_data (nodes graph ! i))
    \<and> region (node_data n') = region (node_data (nodes graph ! i))
    \<and> importance (node_data n') = importance (node_data (nodes graph ! i))
    \<and> year (node_data n') = year (node_data (nodes graph ! i))
    \<and> description (node_data n') = description (node_data (nodes graph ! i))
    \<and> node_dates (node_data n') = node_dates (node_data (nodes graph ! i))
    \<and> embedding (node_data n') = embedding (node_data (nodes graph ! i))
    \<and> sources (node_data n') = sources (node_data (nodes graph ! i))
    \<and> node_certainty (node_data n') = node_certainty (node_data (nodes graph ! i))"
    if h: "i < length (nodes graph)
        \<and> (enrichGraphWithMetrics cy rnd graph = Inr g' \<and> n' = nodes g' ! i
           \<or> n' = nodes (enrichGraphWithMetrics_legacy rnd graph) ! i)"
  proof -
    from h have i: "i < length (nodes graph)" by simp
    from h consider (current) "enrichGraphWithMetrics cy rnd graph = Inr g'" "n' = nodes g' ! i"
      | (legacy) "n' = nodes (enrichGraphWithMetrics_legacy rnd graph) ! i"
      by blast
    then show ?thesis
    proof cases
      case current
      have "enrich_node cy (calculateClusteringCoefficient (nodes graph) (edges graph))
            (detectCommunities graph) (nodes graph ! i) = Inr n'"
        using enrich_Inr_nodes(2) [OF current(1) i] current(2) by simp
      from enrich_node_Inr [OF this] show ?thesis by blast
    next
      case legacy
      then show ?thesis using i by (simp add: nodes_enrich_legacy)
    qed
  qed
  have edges_part: "edge_id (edge_data e') = edge_id (edge_data (edges graph ! j))
    \<and> source (edge_data e') = source (edge_data (edges graph ! j))
    \<and> target (edge_data e') = target (edge_data (edges graph ! j))
    \<and> edge_label (edge_data e') = edge_label (edge_data (edges graph ! j))
    \<and> edge_dates (edge_data e') = edge_dates (edge_data (edges graph ! j))
    \<and> weight (edge_data e') = weight (edge_data (edges graph ! j))
    \<and> isBalanced (edge_data e') = isBalanced (edge_data (edges graph ! j))"
    if h: "j < length (edges graph)
        \<and> (enrichGraphWithMetrics cy rnd graph = Inr g' \<and> e' = edges g' ! j
           \<or> e' = edges (enrichGraphWithMetrics_legacy rnd graph) ! j)"
  proof -
    have e: "e' = processEdgeMetrics (edges graph) ! j"
      using h enrich_Inr(1) [of cy rnd graph g'] by auto
    show ?thesis using h by (simp add: e processEdgeMetrics_nth)
  qed
  have lens: "length (nodes (enrichGraphWithMetrics_legacy rnd graph)) = length (nodes graph)
    \<and> map nid (nodes (enrichGraphWithMetrics_legacy rnd graph)) = map nid (nodes graph)
    \<and> length (edges (enrichGraphWithMetrics_legacy rnd graph)) = length (edges graph)"
    by (simp add: nodes_enrich_legacy)
  have cur: "length (nodes g') = length (nodes graph)
          \<and> map nid (nodes g') = map nid (nodes graph)
          \<and> length (edges g') = length (edges graph)"
    if r: "enrichGraphWithMetrics cy rnd graph = Inr g'"
    using enrich_Inr_nodes(1) [OF r] node_ids_enrich [OF r] enrich_Inr(1) [OF r] by simp
  show ?thesis using nodes_part edges_part lens cur by blast
qed

theorem C10_enrichment_frame_witness:
  "0 < length (nodes mixed_edge_graph) \<and> 1 < length (edges mixed_edge_graph)
   \<and> node_label (node_data (nodes (enrichGraphWithMetrics_legacy 0 mixed_edge_graph) ! 0)) = ''Dmowski''
   \<and> node_type (node_data (nodes (enrichGraphWithMetrics_legacy 0 mixed_edge_graph) ! 0)) = ty_person
   \<and> edge_label (edge_data (edges (enrichGraphWithMetrics_legacy 0 mixed_edge_graph) ! 1)) = Some ''Rival of''
   \<and> source (edge_data (edges (enrichGraphWithMetrics_legacy 0 mixed_edge_graph) ! 1)) = ''B''
   \<and> map_sum id (\<lambda>g. map (\<lambda>n. (nid n, node_label (node_data n))) (nodes g))
       (enrichGraphWithMetrics cy_directed 0 unnamed_node_graph) = Inr [([], ''Dmowski'')]"
proof -
  define G where "G = \<lparr>nodes = nodes unnamed_node_graph,
           edges = processEdgeMetrics (edges unnamed_node_graph),
           meta = enriched_meta unnamed_node_graph 0
             (fst (calculateTriadicBalance
                (unnamed_node_graph\<lparr>edges := processEdgeMetrics (edges unnamed_node_graph)\<rparr>)))\<rparr>"
  have r: "enrichGraphWithMetrics cy_directed 0 unnamed_node_graph = Inr G"
    unfolding G_def
    by (rule enrich_unknown) (simp add: unnamed_node_graph_def cy_directed_def plain_node_def)
  have legacy: "node_label (node_data (nodes (enrichGraphWithMetrics_legacy 0 mixed_edge_graph) ! 0)) = ''Dmowski''
   \<and> node_type (node_data (nodes (enrichGraphWithMetrics_legacy 0 mixed_edge_graph) ! 0)) = ty_person
   \<and> edge_label (edge_data (edges (enrichGraphWithMetrics_legacy 0 mixed_edge_graph) ! 1)) = Some ''Rival of''
   \<and> source (edge_data (edges (enrichGraphWithMetrics_legacy 0 mixed_edge_graph) ! 1)) = ''B''"
    using C10_enrichment_frame [of 0 mixed_edge_graph cy_directed undefined 0
      "nodes (enrichGraphWithMetrics_legacy 0 mixed_edge_graph) ! 0" 1
      "edges (enrichGraphWithMetrics_legacy 0 mixed_edge_graph) ! 1"]
    by (simp add: mixed_edge_graph_def plain_node_def plain_edge_def)
  have current: "map_sum id (\<lambda>g. map (\<lambda>n. (nid n, node_label (node_data n))) (nodes g))
       (enrichGraphWithMetrics cy_directed 0 unnamed_node_graph) = Inr [([], ''Dmowski'')]"
    using C10_enrichment_frame [of 0 unnamed_node_graph cy_directed G 0 "nodes G ! 0" 0 undefined] r
    by (simp add: G_def unnamed_node_graph_def plain_node_def)
  have len: "0 < length (nodes mixed_edge_graph) \<and> 1 < length (edges mixed_edge_graph)"
    by (simp add: mixed_edge_graph_def)
  show ?thesis using len legacy current by blast
qed

text \<open>
  C6: \<open>mergeNodes(keepId, dropId)\<close> leaves a graph in which the endpoints of the edges
  are those of the input with \<open>dropId\<close> replaced by \<open>keepId\<close>, in the same order,
  without the edges whose two endpoints coincide; no edge has equal source and
  target; no node has the id \<open>dropId\<close>; the other nodes are kept in order with their
  ids and all fields that are not derived metrics. The action does so when it is
  linked with the enrichment of the older file. Linked with the current file it
  throws a \<open>TypeError\<close> whenever a node other than \<open>dropId\<close> is in the Cytoscape
  instance and \<open>dcn\<close> has no member \<open>degree\<close>, and the store keeps the graph it had,
  with the node \<open>dropId\<close> and its edges.
\<close>

theorem C6_mergeNodes:
  "(e' \<in> set (edges (mergeNodes_legacy rnd keepId dropId graph)) \<longrightarrow> src e' \<noteq> tgt e')
   \<and> dropId \<notin> set (map nid (nodes (mergeNodes_legacy rnd keepId dropId graph)))
   \<and> map (\<lambda>e. (src e, tgt e)) (edges (mergeNodes_legacy rnd keepId dropId graph)) =
       filter (\<lambda>(s, t). s \<noteq> t)
         (map (\<lambda>e. (if src e = dropId then keepId else src e,
                     if tgt e = dropId then keepId else tgt e)) (edges graph))
   \<and> map node_core (nodes (mergeNodes_legacy rnd keepId dropId graph)) =
       map node_core (filter (\<lambda>n. nid n \<noteq> dropId) (nodes graph))
   \<and> (dcn_degree cy = None \<and> n \<in> set (nodes graph) \<and> nid n \<noteq> dropId \<and> cy_has cy (nid n)
        \<longrightarrow> mergeNodes cy rnd keepId dropId graph = Inl TypeError
          \<and> store_after (mergeNodes cy rnd keepId dropId graph) graph = graph)"
proof -
  have "src e' \<noteq> tgt e'" if "e' \<in> set (edges (mergeNodes_legacy rnd keepId dropId graph))"
  proof -
    have "(src e', tgt e')
        \<in> set (map (\<lambda>e. (src e, tgt e)) (edges (mergeNodes_legacy rnd keepId dropId graph)))"
      using that by force
    then show ?thesis unfolding ends_mergeNodes_legacy by auto
  qed
  moreover have "dropId \<notin> set (map nid (nodes (mergeNodes_legacy rnd keepId dropId graph)))"
    unfolding ids_mergeNodes_legacy by auto
  moreover have "mergeNodes cy rnd keepId dropId graph = Inl TypeError
          \<and> store_after (mergeNodes cy rnd keepId dropId graph) graph = graph"
    if "dcn_degree cy = None \<and> n \<in> set (nodes graph) \<and> nid n \<noteq> dropId \<and> cy_has cy (nid n)"
    using mergeNodes_Inl [of cy n graph dropId rnd keepId] that by (simp add: store_after_def)
  ultimately show ?thesis using ends_mergeNodes_legacy nodes_mergeNodes_legacy by blast
qed

theorem C6_mergeNodes_witness:
  "merged_edge \<in> set (edges (mergeNodes_legacy 0 ''A'' ''B'' merge_graph))
   \<and> src merged_edge \<noteq> tgt merged_edge
   \<and> ''B'' \<notin> set (map nid (nodes (mergeNodes_legacy 0 ''A'' ''B'' merge_graph)))
   \<and> map (\<lambda>e. (src e, tgt e)) (edges (mergeNodes_legacy 0 ''A'' ''B'' merge_graph))
       = [(''A'', ''C''), (''C'', ''A'')]
   \<and> dcn_degree cy_directed = None
   \<and> plain_node ''A'' ''Dmowski'' ty_person \<in> set (nodes merge_graph)
   \<and> cy_has cy_directed ''A''
   \<and> mergeNodes cy_directed 0 ''A'' ''B'' merge_graph = Inl TypeError
   \<and> map nid (nodes (store_after (mergeNodes cy_directed 0 ''A'' ''B'' merge_graph) merge_graph))
       = [''A'', ''B'', ''C'']"
proof -
  have m: "merged_edge \<in> set (edges (mergeNodes_legacy 0 ''A'' ''B'' merge_graph))"
    by code_simp
  have h: "dcn_degree cy_directed = None
     \<and> plain_node ''A'' ''Dmowski'' ty_person \<in> set (nodes merge_graph)
     \<and> nid (plain_node ''A'' ''Dmowski'' ty_person) \<noteq> ''B''
     \<and> cy_has cy_directed (nid (plain_node ''A'' ''Dmowski'' ty_person))"
    by (simp add: cy_directed_def merge_graph_def plain_node_def)
  have ids: "map nid (nodes merge_graph) = [''A'', ''B'', ''C'']"
    by (simp add: merge_graph_def plain_node_def)
  have legacy: "src merged_edge \<noteq> tgt merged_edge
   \<and> ''B'' \<notin> set (map nid (nodes (mergeNodes_legacy 0 ''A'' ''B'' merge_graph)))
   \<and> map (\<lambda>e. (src e, tgt e)) (edges (mergeNodes_legacy 0 ''A'' ''B'' merge_graph))
       = [(''A'', ''C''), (''C'', ''A'')]"
    using C6_mergeNodes [of merged_edge 0 "''A''" "''B''" merge_graph cy_directed
        "plain_node ''A'' ''Dmowski'' ty_person"] m
    by (simp add: merge_graph_def plain_edge_def)
  have current: "mergeNodes cy_directed 0 ''A'' ''B'' merge_graph = Inl TypeError
   \<and> store_after (mergeNodes cy_directed 0 ''A'' ''B'' merge_graph) merge_graph = merge_graph"
    using C6_mergeNodes [of merged_edge 0 "''A''" "''B''" merge_graph cy_directed
        "plain_node ''A'' ''Dmowski'' ty_person"] h
    by blast
  have hyp: "dcn_degree cy_directed = None
   \<and> plain_node ''A'' ''Dmowski'' ty_person \<in> set (nodes merge_graph)
   \<and> cy_has cy_directed ''A''"
    using h by (simp add: plain_node_def)
  show ?thesis
    using m legacy current hyp ids by (simp add: store_after_def)
qed

text \<open>
  C9 (as stated): with threshold 0.7, every pair of distinct nodes of the same type
  with identical labels is emitted with similarity 1.0. Two nodes of the same type
  whose labels are both empty are not: for them \<open>maxLen\<close> is 0 and the similarity is
  set to 0.
\<close>

theorem C9_empty_labels_not_emitted:
  "detectDuplicates empty_label_graph 0.7 = []"
  by code_simp

text \<open>
  C9 (amended): in lexical duplicate detection with threshold 0.7, for every pair of
  distinct nodes with the same type and identical non-empty labels a candidate with
  similarity 1.0 is emitted; and every candidate emitted, for any threshold and any
  labels, is a pair of nodes at positions \<open>i < j\<close> with the same type, so a pair of
  nodes with different types is never emitted.
\<close>

theorem C9_detectDuplicates:
  "(i < j \<and> j < length (nodes graph)
      \<and> node_type (node_data (nodes graph ! i)) = node_type (node_data (nodes graph ! j))
      \<and> node_label (node_data (nodes graph ! i)) = node_label (node_data (nodes graph ! j))
      \<and> node_label (node_data (nodes graph ! i)) \<noteq> []
    \<longrightarrow> \<lparr>nodeA = node_data (nodes graph ! i), nodeB = node_data (nodes graph ! j), similarity = 1\<rparr>
           \<in> set (detectDuplicates graph 0.7))
   \<and> (c \<in> set (detectDuplicates graph threshold)
    \<longrightarrow> node_type (nodeA c) = node_type (nodeB c)
        \<and> (\<exists>i' j'. i' < j' \<and> j' < length (nodes graph)
              \<and> nodeA c = node_data (nodes graph ! i') \<and> nodeB c = node_data (nodes graph ! j')))"
proof -
  have first: "\<lparr>nodeA = node_data (nodes graph ! i), nodeB = node_data (nodes graph ! j), similarity = 1\<rparr>
           \<in> set (detectDuplicates graph 0.7)"
    if "i < j \<and> j < length (nodes graph)
      \<and> node_type (node_data (nodes graph ! i)) = node_type (node_data (nodes graph ! j))
      \<and> node_label (node_data (nodes graph ! i)) = node_label (node_data (nodes graph ! j))
      \<and> node_label (node_data (nodes graph ! i)) \<noteq> []"
  proof -
    have a: "i < j" and b: "j < length (nodes graph)"
      and c: "node_type (node_data (nodes graph ! i)) = node_type (node_data (nodes graph ! j))"
      and d: "node_label (node_data (nodes graph ! i)) = node_label (node_data (nodes graph ! j))"
      and e: "node_label (node_data (nodes graph ! i)) \<noteq> []"
      using that by blast+
    have t: "(0.7::real) \<le> 1" by simp
    show ?thesis by (rule identical_labels_emitted [OF a b c d e t])
  qed
  have second: "node_type (nodeA c) = node_type (nodeB c)
        \<and> (\<exists>i' j'. i' < j' \<and> j' < length (nodes graph)
              \<and> nodeA c = node_data (nodes graph ! i') \<and> nodeB c = node_data (nodes graph ! j'))"
    if "c \<in> set (detectDuplicates graph threshold)"
    using candidates_same_type [OF that] by blast
  show ?thesis using first second by blast
qed

theorem C9_detectDuplicates_witness:
  "(0::nat) < 2 \<and> 2 < length (nodes same_label_graph)
   \<and> node_type (node_data (nodes same_label_graph ! 0)) = node_type (node_data (nodes same_label_graph ! 2))
   \<and> node_label (node_data (nodes same_label_graph ! 0)) = node_label (node_data (nodes same_label_graph ! 2))
   \<and> node_label (node_data (nodes same_label_graph ! 0)) \<noteq> []
   \<and> \<lparr>nodeA = node_data (nodes same_label_graph ! 0), nodeB = node_data (nodes same_label_graph ! 2),
        similarity = 1\<rparr> \<in> set (detectDuplicates same_label_graph 0.7)
   \<and> node_type (nodeA \<lparr>nodeA = node_data (nodes same_label_graph ! 0),
                       nodeB = node_data (nodes same_label_graph ! 2), similarity = 1\<rparr>)
       = node_type (nodeB \<lparr>nodeA = node_data (nodes same_label_graph ! 0),
                       nodeB = node_data (nodes same_label_graph ! 2), similarity = 1\<rparr>)"
proof -
  have h1: "(0::nat) < 2" by simp
  have h2: "2 < length (nodes same_label_graph)" by (simp add: same_label_graph_def)
  have h3: "node_type (node_data (nodes same_label_graph ! 0))
      = node_type (node_data (nodes same_label_graph ! 2))"
    by (simp add: same_label_graph_def plain_node_def)
  have h4: "node_label (node_data (nodes same_label_graph ! 0))
      = node_label (node_data (nodes same_label_graph ! 2))"
    by (simp add: same_label_graph_def plain_node_def)
  have h5: "node_label (node_data (nodes same_label_graph ! 0)) \<noteq> []"
    by (simp add: same_label_graph_def plain_node_def)
  have h6: "\<lparr>nodeA = node_data (nodes same_label_graph ! 0), nodeB = node_data (nodes same_label_graph ! 2),
        similarity = 1\<rparr> \<in> set (detectDuplicates same_label_graph 0.7)"
    using C9_detectDuplicates [of 0 2 same_label_graph] h1 h2 h3 h4 h5 by blast
  show ?thesis
    using C9_detectDuplicates [of 0 2 same_label_graph
        "\<lparr>nodeA = node_data (nodes same_label_graph ! 0),
          nodeB = node_data (nodes same_label_graph ! 2), similarity = 1\<rparr>" "0.7"]
      h1 h2 h3 h4 h5 h6
    by blast
qed

text \<open>
  C4 (as stated): every triple of nodes whose three pairwise edges exist is counted,
  and \<open>globalBalance\<close> is the share of balanced triangles among all of them. The
  current \<open>calculateTriadicBalance\<close> examines the first 200 nodes only. In
  \<open>capped_graph\<close> the only triangle lies at the positions 200, 201 and 202 and is
  unbalanced, so the share is 0, but the function finds no triangle and returns 1.
\<close>

theorem C4_triangle_beyond_cap:
  "triangles capped_graph (length (nodes capped_graph)) = {(200, 201, 202)}
   \<and> balanced_triangles capped_graph (length (nodes capped_graph)) = {}
   \<and> fst (calculateTriadicBalance capped_graph) = 1
   \<and> fst (calculateTriadicBalance capped_graph)
       \<noteq> real (card (balanced_triangles capped_graph (length (nodes capped_graph))))
         / real (card (triangles capped_graph (length (nodes capped_graph))))"
  by (simp add: capped_triangles_all capped_balanced_all capped_balance)

text \<open>
  C4 (amended): in triadic balance analysis, every triple of positions \<open>i < j < k\<close>
  among the first \<open>min n 200\<close> nodes whose three pairwise edges all exist is counted as
  a triangle, and as balanced iff the product of the three edge signs (+1 for
  positive, -1 for negative) is positive; \<open>globalBalance\<close> is the number of balanced
  triangles divided by the number of triangles, and 1 when there is none. The legacy
  version examines all \<open>n\<close> nodes. A triangle of three nodes with all edges positive
  yields 1, and the same triangle with exactly one negative edge yields 0.
\<close>

theorem C4_triadic_balance:
  "fst (calculateTriadicBalance graph) =
     (if triangles graph (min (length (nodes graph)) 200) = {} then 1
      else real (card (balanced_triangles graph (min (length (nodes graph)) 200)))
           / real (card (triangles graph (min (length (nodes graph)) 200))))
   \<and> fst (calculateTriadicBalance_legacy graph) =
     (if triangles graph (length (nodes graph)) = {} then 1
      else real (card (balanced_triangles graph (length (nodes graph))))
           / real (card (triangles graph (length (nodes graph)))))
   \<and> fst (calculateTriadicBalance (triangle_graph positive)) = 1
   \<and> fst (calculateTriadicBalance (triangle_graph negative)) = 0"
proof -
  have pos: "fst (calculateTriadicBalance (triangle_graph positive)) = 1" by code_simp
  have neg: "fst (calculateTriadicBalance (triangle_graph negative)) = 0" by code_simp
  show ?thesis
    using calculateTriadicBalance_card [of graph] calculateTriadicBalance_legacy_card [of graph]
      pos neg
    by blast
qed

theorem C4_triadic_balance_witness:
  "triangles (triangle_graph negative) (min (length (nodes (triangle_graph negative))) 200) \<noteq> {}
   \<and> real (card (balanced_triangles (triangle_graph negative)
                   (min (length (nodes (triangle_graph negative))) 200)))
       / real (card (triangles (triangle_graph negative)
                   (min (length (nodes (triangle_graph negative))) 200))) = 0"
proof -
  let ?T = "triangles (triangle_graph negative) (min (length (nodes (triangle_graph negative))) 200)"
  let ?B = "balanced_triangles (triangle_graph negative)
              (min (length (nodes (triangle_graph negative))) 200)"
  have eq: "fst (calculateTriadicBalance (triangle_graph negative)) =
      (if ?T = {} then 1 else real (card ?B) / real (card ?T))"
    and zero: "fst (calculateTriadicBalance (triangle_graph negative)) = 0"
    using C4_triadic_balance [of "triangle_graph negative"] by blast+
  have ne: "?T \<noteq> {}"
  proof
    assume "?T = {}"
    then have "fst (calculateTriadicBalance (triangle_graph negative)) = 1"
      using eq by (simp only: if_P)
    then show False using zero by simp
  qed
  have "fst (calculateTriadicBalance (triangle_graph negative)) = real (card ?B) / real (card ?T)"
    using eq unfolding if_not_P [OF ne] .
  then have "real (card ?B) / real (card ?T) = 0"
    using zero by (simp only:)
  with ne show ?thesis by blast
qed

text \<open>
  C3: every node of the graph returned by enrichment has \<open>degreeCentrality\<close>,
  \<open>pagerank\<close>, \<open>betweenness\<close>, \<open>closeness\<close> and \<open>clustering\<close> in the interval from 0 to
  1. The code does otherwise. The enrichment of the current file throws a
  \<open>TypeError\<close> as soon as one node of the graph is in the Cytoscape instance, when
  \<open>dcn\<close> has no member \<open>degree\<close>; when it returns, it returns the nodes of the input
  as they were, so it assigns no metric at all. In the enrichment of the older file
  an edge from the node \<open>A\<close> to the id \<open>constructor\<close> makes the degree centrality of \<open>A\<close>
  NaN, an edge from an unknown id to \<open>A\<close> makes the PageRank of \<open>A\<close> NaN, and
  \<open>betweenness\<close>, \<open>closeness\<close> and \<open>clustering\<close> are never assigned.
\<close>

theorem C3_metrics_not_delivered:
  "(dcn_degree cy = None \<and> n \<in> set (nodes graph) \<and> cy_has cy (nid n)
      \<longrightarrow> enrichGraphWithMetrics cy rnd graph = Inl TypeError)
   \<and> (dcn_degree cy = None \<and> enrichGraphWithMetrics cy rnd graph = Inr g'
      \<longrightarrow> nodes g' = nodes graph)
   \<and> calculateDegreeCentrality prototype_graph = [(''A'', NaN), (''constructor'', NaN)]
   \<and> degreeCentrality (node_data (nodes (enrichGraphWithMetrics_legacy 0 prototype_graph) ! 0)) = Some NaN
   \<and> pagerank (node_data (nodes (enrichGraphWithMetrics_legacy 0 dangling_source_graph) ! 0)) = Some NaN
   \<and> betweenness (node_data (nodes (enrichGraphWithMetrics_legacy 0 single_node_graph) ! 0)) = None
   \<and> closeness (node_data (nodes (enrichGraphWithMetrics_legacy 0 single_node_graph) ! 0)) = None
   \<and> clustering (node_data (nodes (enrichGraphWithMetrics_legacy 0 single_node_graph) ! 0)) = None"
proof -
  have throws: "dcn_degree cy = None \<and> n \<in> set (nodes graph) \<and> cy_has cy (nid n)
      \<longrightarrow> enrichGraphWithMetrics cy rnd graph = Inl TypeError"
    using enrich_Inl [of cy n graph rnd] by blast
  have returns: "dcn_degree cy = None \<and> enrichGraphWithMetrics cy rnd graph = Inr g'
      \<longrightarrow> nodes g' = nodes graph"
    using enrich_directed_Inr [of cy rnd graph g'] by blast
  have eval: "calculateDegreeCentrality prototype_graph = [(''A'', NaN), (''constructor'', NaN)]
   \<and> degreeCentrality (node_data (nodes (enrichGraphWithMetrics_legacy 0 prototype_graph) ! 0)) = Some NaN
   \<and> pagerank (node_data (nodes (enrichGraphWithMetrics_legacy 0 dangling_source_graph) ! 0)) = Some NaN
   \<and> betweenness (node_data (nodes (enrichGraphWithMetrics_legacy 0 single_node_graph) ! 0)) = None
   \<and> closeness (node_data (nodes (enrichGraphWithMetrics_legacy 0 single_node_graph) ! 0)) = None
   \<and> clustering (node_data (nodes (enrichGraphWithMetrics_legacy 0 single_node_graph) ! 0)) = None"
    by code_simp
  show ?thesis using throws returns eval by blast
qed

theorem C3_metrics_not_delivered_witness:
  "dcn_degree cy_directed = None
   \<and> plain_node ''A'' ''Dmowski'' ty_person \<in> set (nodes single_node_graph)
   \<and> cy_has cy_directed ''A''
   \<and> enrichGraphWithMetrics cy_directed 0 single_node_graph = Inl TypeError
   \<and> map_sum id nodes (enrichGraphWithMetrics cy_directed 0 unnamed_node_graph)
       = Inr (nodes unnamed_node_graph)"
proof -
  define G where "G = \<lparr>nodes = nodes unnamed_node_graph,
           edges = processEdgeMetrics (edges unnamed_node_graph),
           meta = enriched_meta unnamed_node_graph 0
             (fst (calculateTriadicBalance
                (unnamed_node_graph\<lparr>edges := processEdgeMetrics (edges unnamed_node_graph)\<rparr>)))\<rparr>"
  have r: "enrichGraphWithMetrics cy_directed 0 unnamed_node_graph = Inr G"
    unfolding G_def
    by (rule enrich_unknown) (simp add: unnamed_node_graph_def cy_directed_def plain_node_def)
  have h: "dcn_degree cy_directed = None
   \<and> plain_node ''A'' ''Dmowski'' ty_person \<in> set (nodes single_node_graph)
   \<and> cy_has cy_directed (nid (plain_node ''A'' ''Dmowski'' ty_person))"
    by (simp add: cy_directed_def single_node_graph_def plain_node_def)
  have a: "enrichGraphWithMetrics cy_directed 0 single_node_graph = Inl TypeError"
    using C3_metrics_not_delivered [of cy_directed "plain_node ''A'' ''Dmowski'' ty_person"
        single_node_graph 0] h by blast
  have b: "map_sum id nodes (enrichGraphWithMetrics cy_directed 0 unnamed_node_graph)
       = Inr (nodes unnamed_node_graph)"
    using C3_metrics_not_delivered [of cy_directed undefined unnamed_node_graph 0 G] r h
    by simp
  show ?thesis using h a b by (simp add: plain_node_def)
qed
end
